theory Spec2Isabelle
  imports Complex_Main "HOL-Library.Sublist"
begin

section \<open>Values, schemas and failures\<close>

text \<open>
  Values that cross a schema boundary (keyword arguments of a schema class, model payloads,
  tool results) are dynamically typed. The number type is left open: Python floats are
  neither reals nor rationals, so everything below holds for any carrier \<open>'n\<close> of numbers.
\<close>

datatype 'n pyval =
    PNone
  | PBool bool
  | PNum 'n
  | PStr string
  | PList "'n pyval list"
  | PDict "(string \<times> 'n pyval) list"

type_synonym 'n fields = "(string \<times> 'n pyval) list"

text \<open>One step of a field path: a key of a mapping or an index of a list.\<close>

datatype pathel = Key string | Idx nat

text \<open>
  One validation finding: a required field that is absent, or a value of the wrong type
  (field path, expected type, actual type).
\<close>

datatype verr =
    Missing "pathel list"
  | Mismatch "pathel list" string string

text \<open>
  Failures are values. The first three are the exceptions of the transcript library and of
  the metadata client as \<open>run\<close> sees them (each carries \<open>str(e)\<close>; \<open>ExternalError\<close> is any
  other exception class, with its class name); \<open>Exception\<close> is Python's generic exception
  with its message; \<open>ValueError\<close> and \<open>IndexError\<close> are raised by string splitting and
  list indexing. The remaining ones are the failure taxonomy of the specification.
\<close>

datatype error =
    NoTranscriptFound string
  | TranscriptsDisabled string
  | ExternalError string string
  | Exception string
  | ValueError string
  | IndexError string
  | SchemaValidationError string "verr list"
  | ModelBackendError string
  | ModelOutputValidationError "verr list"
  | ToolError string error
  | ConcurrentRunError

fun is_ToolError :: "error \<Rightarrow> bool" where
  "is_ToolError (ToolError name cause) = True"
| "is_ToolError e = False"

section \<open>Python strings and lists\<close>

text \<open>
  A string is a list of characters. The separators the tool splits at are ASCII, and an ASCII
  byte never occurs inside a longer UTF-8 sequence, so splitting bytes cuts where Python cuts
  code points.

  \<open>s.split(sep)\<close> for a non-empty separator: scan from the left, cut at every occurrence
  of \<open>sep\<close> and continue behind it (occurrences do not overlap). \<open>cur\<close> is the piece being
  collected.
\<close>

function str_split_from :: "string \<Rightarrow> string \<Rightarrow> string \<Rightarrow> string list" where
  "str_split_from sep cur [] = [cur]"
| "str_split_from sep cur (c # cs) =
     (if sep \<noteq> [] \<and> prefix sep (c # cs)
      then cur # str_split_from sep [] (drop (length sep) (c # cs))
      else str_split_from sep (cur @ [c]) cs)"
  by pat_completeness auto
termination
  by (relation "measure (\<lambda>(sep, cur, s). length s)") (auto simp: neq_Nil_conv)

text \<open>\<open>s.split(sep)\<close>; an empty separator raises \<open>ValueError\<close>.\<close>

definition str_split :: "string \<Rightarrow> string \<Rightarrow> error + string list" where
  "str_split s sep =
     (if sep = [] then Inl (ValueError ''empty separator'')
      else Inr (str_split_from sep [] s))"

text \<open>\<open>xs[i]\<close> with Python's negative indices; out of range raises \<open>IndexError\<close>.\<close>

definition list_index :: "'a list \<Rightarrow> int \<Rightarrow> error + 'a" where
  "list_index xs i =
     (let j = (if i < 0 then int (length xs) + i else i)
      in if 0 \<le> j \<and> j < int (length xs) then Inr (xs ! nat j)
         else Inl (IndexError ''list index out of range''))"

text \<open>\<open>sep.join(xs)\<close> on a list of strings.\<close>

fun str_join :: "string \<Rightarrow> string list \<Rightarrow> string" where
  "str_join sep [] = []"
| "str_join sep [x] = x"
| "str_join sep (x # y # ys) = x @ sep @ str_join sep (y # ys)"

text \<open>\<open>sum(xs)\<close>: the additions are done from the left, starting at zero.\<close>

definition py_sum :: "('n::{zero,plus}) list \<Rightarrow> 'n" where
  "py_sum xs = foldl (+) 0 xs"

text \<open>The apostrophe used inside the messages of the tool.\<close>

definition apostrophe :: string where
  "apostrophe = [CHR 0x27]"

section \<open>The transcript tool: extracting the video id\<close>

text \<open>\<open>url.split("v=")[-1].split("&")[0]\<close>\<close>

definition extract_video_id :: "string \<Rightarrow> error + string" where
  "extract_video_id url =
     (case str_split url ''v='' of
        Inl e \<Rightarrow> Inl e
      | Inr parts \<Rightarrow>
          (case list_index parts (- 1) of
             Inl e \<Rightarrow> Inl e
           | Inr tail \<Rightarrow>
               (case str_split tail ''&'' of
                  Inl e \<Rightarrow> Inl e
                | Inr pieces \<Rightarrow> list_index pieces 0)))"

text \<open>
  The reference the extraction is compared with: the positions at which a pattern occurs
  in a string, and the text strictly between the last \<open>v=\<close> (the whole URL when there is
  none) and the first \<open>&\<close> behind it (the end of the string when there is none).
\<close>

definition occurrences :: "string \<Rightarrow> string \<Rightarrow> nat list" where
  "occurrences pat s = filter (\<lambda>i. prefix pat (drop i s)) [0..<Suc (length s)]"

definition after_last_marker :: "string \<Rightarrow> string" where
  "after_last_marker url =
     (let occ = occurrences ''v='' url
      in if occ = [] then url else drop (last occ + 2) url)"

definition video_id_reference :: "string \<Rightarrow> string" where
  "video_id_reference url = takeWhile (\<lambda>c. c \<noteq> CHR ''&'') (after_last_marker url)"

section \<open>Schema Contract\<close>

text \<open>
  A schema is a named list of fields, each with a semantic type, a description and a flag
  saying whether it is required. The schema classes of the source are written in this form
  from their field declarations: \<open>Field(...)\<close> is a required field, \<open>Field(None)\<close> on an
  \<open>Optional\<close> type a field that may be omitted.
\<close>

datatype ftype =
    TString
  | TNumber
  | TBoolean
  | TList ftype
  | TMapping
  | TOptional ftype
  | TNested "field list"
and field = Field (fname: string) (ftype: ftype) (fdesc: string) (required: bool)

record schema =
  sname :: string
  sdoc :: string
  sfields :: "field list"

fun type_name :: "ftype \<Rightarrow> string" where
  "type_name TString = ''string''"
| "type_name TNumber = ''number''"
| "type_name TBoolean = ''boolean''"
| "type_name (TList t) = ''list''"
| "type_name TMapping = ''mapping''"
| "type_name (TOptional t) = type_name t"
| "type_name (TNested fs) = ''schema''"

fun kind_of :: "'n pyval \<Rightarrow> string" where
  "kind_of PNone = ''none''"
| "kind_of (PBool b) = ''boolean''"
| "kind_of (PNum n) = ''number''"
| "kind_of (PStr s) = ''string''"
| "kind_of (PList xs) = ''list''"
| "kind_of (PDict kvs) = ''mapping''"

lemma size_ftype_field: "size (ftype f) < size f"
  by (cases f) simp

text \<open>
  Modelled from the spec: the validation done when a schema class is constructed. The base
  class \<open>BaseIOSchema\<close> (module \<open>atomic_agents.agents.base_agent\<close>) that performs it is not
  among the sources; section 4.1 says it checks field presence, type conformance and
  nested-schema conformance recursively, and that a finding carries the field path and the
  expected and actual type. \<open>check\<close> returns the findings for one value, \<open>check_items\<close> for
  the elements of a list, \<open>check_fields\<close> for the declared fields of a (nested) schema.
  Keys the schema does not declare are ignored.
\<close>

function (sequential) check :: "ftype \<Rightarrow> 'n pyval \<Rightarrow> pathel list \<Rightarrow> verr list"
  and check_items :: "ftype \<Rightarrow> 'n pyval list \<Rightarrow> nat \<Rightarrow> pathel list \<Rightarrow> verr list"
  and check_fields :: "field list \<Rightarrow> 'n fields \<Rightarrow> pathel list \<Rightarrow> verr list"
where
  "check TString (PStr s) p = []"
| "check TNumber (PNum n) p = []"
| "check TBoolean (PBool b) p = []"
| "check TMapping (PDict kvs) p = []"
| "check (TOptional t) PNone p = []"
| "check (TOptional t) v p = check t v p"
| "check (TList t) (PList xs) p = check_items t xs 0 p"
| "check (TNested fs) (PDict kvs) p = check_fields fs kvs p"
| "check t v p = [Mismatch p (type_name t) (kind_of v)]"
| "check_items t [] i p = []"
| "check_items t (x # xs) i p = check t x (p @ [Idx i]) @ check_items t xs (Suc i) p"
| "check_fields [] kvs p = []"
| "check_fields (f # fs) kvs p =
     (case map_of kvs (fname f) of
        None \<Rightarrow> (if required f then [Missing (p @ [Key (fname f)])] else [])
      | Some v \<Rightarrow> check (ftype f) v (p @ [Key (fname f)]))
     @ check_fields fs kvs p"
  by pat_completeness auto
termination
  by (relation "measures
        [\<lambda>a. case a of
               Inl (t, v, p) \<Rightarrow> size t
             | Inr (Inl (t, xs, i, p)) \<Rightarrow> size t
             | Inr (Inr (fs, kvs, p)) \<Rightarrow> size_list size fs,
         \<lambda>a. case a of
               Inl (t, v, p) \<Rightarrow> size v
             | Inr (Inl (t, xs, i, p)) \<Rightarrow> size_list size xs
             | Inr (Inr (fs, kvs, p)) \<Rightarrow> 0]")
     (auto simp: less_Suc_eq_le intro: order.trans [OF less_imp_le [OF size_ftype_field]])

text \<open>
  Modelled from the spec: the instance a successful validation returns, one entry per
  declared field in declaration order; a field that may be omitted and is omitted holds
  \<open>None\<close>, the only default the sources declare.
\<close>

definition instance_of :: "field list \<Rightarrow> 'n fields \<Rightarrow> 'n fields" where
  "instance_of fs raw =
     map (\<lambda>f. (fname f, case map_of raw (fname f) of None \<Rightarrow> PNone | Some v \<Rightarrow> v)) fs"

text \<open>
  Modelled from the spec: \<open>validate\<close> of section 4.1, which is also what constructing a
  schema class does (\<open>BaseIOSchema\<close> is not among the sources). It fails with a
  \<open>SchemaValidationError\<close> carrying the schema's name and every finding.
\<close>

definition validate :: "schema \<Rightarrow> 'n fields \<Rightarrow> error + 'n fields" where
  "validate sch raw =
     (case check_fields (sfields sch) raw [] of
        [] \<Rightarrow> Inr (instance_of (sfields sch) raw)
      | e # es \<Rightarrow> Inl (SchemaValidationError (sname sch) (e # es)))"

text \<open>Modelled from the spec: \<open>describe\<close> of section 4.1 (name, type, description, required).\<close>

definition describe :: "schema \<Rightarrow> (string \<times> string \<times> string \<times> bool) list" where
  "describe sch = map (\<lambda>f. (fname f, type_name (ftype f), fdesc f, required f)) (sfields sch)"

text \<open>The field a finding names: the first step of its path.\<close>

fun verr_path :: "verr \<Rightarrow> pathel list" where
  "verr_path (Missing p) = p"
| "verr_path (Mismatch p expected actual) = p"

definition names_field :: "error \<Rightarrow> string \<Rightarrow> bool" where
  "names_field e name =
     (case e of
        SchemaValidationError sch errs \<Rightarrow>
          list_ex (\<lambda>v. case verr_path v of Key k # rest \<Rightarrow> k = name | _ \<Rightarrow> False) errs
      | _ \<Rightarrow> False)"

section \<open>The transcript tool\<close>

subsection \<open>Schemas and configuration\<close>

text \<open>\<open>YouTubeTranscriptToolInputSchema\<close>: \<open>video_url\<close> is required, \<open>language\<close> may be omitted.\<close>

definition YouTubeTranscriptToolInputSchema :: schema where
  "YouTubeTranscriptToolInputSchema =
     \<lparr>sname = ''YouTubeTranscriptToolInputSchema'',
      sdoc = ''Tool for fetching the transcript of a YouTube video using the YouTube Transcript API. Returns the transcript with text, start time, and duration.'',
      sfields =
        [Field ''video_url'' TString
           ''URL of the YouTube video to fetch the transcript for.'' True,
         Field ''language'' (TOptional TString)
           (''Language code for the transcript (e.g., '' @ apostrophe @ ''en'' @ apostrophe
              @ '' for English).'') False]\<rparr>"

text \<open>\<open>YouTubeTranscriptToolOutputSchema\<close>: four fields, none with a default.\<close>

definition YouTubeTranscriptToolOutputSchema :: schema where
  "YouTubeTranscriptToolOutputSchema =
     \<lparr>sname = ''YouTubeTranscriptToolOutputSchema'',
      sdoc = ''Output schema for the YouTubeTranscriptTool. Contains the transcript text, duration, comments, and metadata.'',
      sfields =
        [Field ''transcript'' TString [] True,
         Field ''duration'' TNumber [] True,
         Field ''comments'' (TList TString) [] True,
         Field ''metadata'' TMapping [] True]\<rparr>"

text \<open>An instance of the input schema, as \<open>run\<close> reads it.\<close>

record params =
  video_url :: string
  language :: "string option"

text \<open>
  The process environment, and \<open>YouTubeTranscriptToolConfig\<close>: when no key is given the
  default is the value \<open>os.getenv("YOUTUBE_API_KEY")\<close> had when the class was defined
  (\<open>None\<close> when the variable was unset).
\<close>

type_synonym env = "string \<Rightarrow> string option"

record config =
  config_api_key :: "string option"

definition YouTubeTranscriptToolConfig :: "env \<Rightarrow> string option \<Rightarrow> config" where
  "YouTubeTranscriptToolConfig import_env given =
     \<lparr>config_api_key =
        (case given of None \<Rightarrow> import_env ''YOUTUBE_API_KEY'' | Some k \<Rightarrow> Some k)\<rparr>"

text \<open>
  The tool object. \<open>base\<close> is whatever \<open>BaseTool.__init__\<close> stores (the base class is not
  among the sources, so it is a parameter of the construction and may depend on the
  configuration and on the environment); \<open>api_key\<close> is \<open>self.api_key\<close>.
\<close>

record 'b tool =
  base :: 'b
  api_key :: "string option"

definition init :: "(env \<Rightarrow> config \<Rightarrow> 'b) \<Rightarrow> env \<Rightarrow> config \<Rightarrow> 'b tool" where
  "init super_init environ config =
     \<lparr>base = super_init environ config, api_key = config_api_key config\<rparr>"

subsection \<open>The external services\<close>

text \<open>
  One segment of a transcript, the part of a \<open>videos().list\<close> response that the tool reads,
  and the two external calls: \<open>YouTubeTranscriptApi.get_transcript(video_id[, languages])\<close>
  and \<open>build("youtube", "v3", developerKey).videos().list(part, id).execute()\<close>. Either call
  returns or raises. What a call returns has the shape its service documents: segments with a
  text and a duration, and a response with an \<open>items\<close> list whose entries carry a snippet
  with \<open>title\<close>, \<open>channelTitle\<close> and \<open>publishedAt\<close>.
\<close>

record 'n segment =
  seg_text :: string
  seg_start :: 'n
  seg_duration :: 'n

record snippet =
  title :: string
  channelTitle :: string
  publishedAt :: string

record video_resource =
  video_snippet :: snippet

record response =
  items :: "video_resource list"

record 'n world =
  get_transcript :: "string \<Rightarrow> string list option \<Rightarrow> error + 'n segment list"
  videos_list :: "string option \<Rightarrow> string \<Rightarrow> string \<Rightarrow> error + response"

text \<open>
  What a call of \<open>run\<close> can change: the tool object, and the log of the external calls made
  so far.
\<close>

datatype call =
    GetTranscript string "string list option"
  | VideosList "string option" string string

fun is_transcript_call :: "call \<Rightarrow> bool" where
  "is_transcript_call (GetTranscript video_id languages) = True"
| "is_transcript_call c = False"

fun is_metadata_call :: "call \<Rightarrow> bool" where
  "is_metadata_call (VideosList key part video_id) = True"
| "is_metadata_call c = False"

record 'b sys =
  self :: "'b tool"
  calls :: "call list"

subsection \<open>fetch_video_metadata and run\<close>

definition fetch_video_metadata ::
  "'n world \<Rightarrow> string \<Rightarrow> 'b sys \<Rightarrow> (error + 'n fields) \<times> 'b sys" where
  "fetch_video_metadata w video_id s =
     (let s' = s\<lparr>calls := calls s @ [VideosList (api_key (self s)) ''snippet'' video_id]\<rparr>
      in case videos_list w (api_key (self s)) ''snippet'' video_id of
           Inl e \<Rightarrow> (Inl e, s')
         | Inr response \<Rightarrow>
             (case items response of
                [] \<Rightarrow>
                  (Inl (Exception
                     (''No metadata found for video '' @ apostrophe @ video_id @ apostrophe)),
                   s')
              | item # rest \<Rightarrow>
                  (let video_info = video_snippet item
                   in (Inr [(''id'', PStr video_id),
                            (''title'', PStr (title video_info)),
                            (''channel'', PStr (channelTitle video_info)),
                            (''published_at'', PStr (publishedAt video_info))],
                       s'))))"

text \<open>
  The \<open>except (NoTranscriptFound, TranscriptsDisabled) as e\<close> clause of \<open>run\<close>: these two are
  replaced by a generic \<open>Exception\<close>, every other exception passes through.
\<close>

fun transcript_failure :: "string \<Rightarrow> error \<Rightarrow> error" where
  "transcript_failure video_id (NoTranscriptFound m) =
     Exception (''Failed to fetch transcript for video '' @ apostrophe @ video_id @ apostrophe
                @ '': '' @ m)"
| "transcript_failure video_id (TranscriptsDisabled m) =
     Exception (''Failed to fetch transcript for video '' @ apostrophe @ video_id @ apostrophe
                @ '': '' @ m)"
| "transcript_failure video_id e = e"

text \<open>\<open>if params.language:\<close> an absent or empty language asks for the default transcript.\<close>

definition requested_languages :: "params \<Rightarrow> string list option" where
  "requested_languages params =
     (case language params of
        None \<Rightarrow> None
      | Some l \<Rightarrow> if l = [] then None else Some [l])"

definition run ::
  "('n::{zero,plus}) world \<Rightarrow> params \<Rightarrow> 'b sys \<Rightarrow> (error + 'n fields) \<times> 'b sys" where
  "run w params s =
     (case extract_video_id (video_url params) of
        Inl e \<Rightarrow> (Inl e, s)
      | Inr video_id \<Rightarrow>
          (let languages = requested_languages params;
               s1 = s\<lparr>calls := calls s @ [GetTranscript video_id languages]\<rparr>
           in case get_transcript w video_id languages of
                Inl e \<Rightarrow> (Inl (transcript_failure video_id e), s1)
              | Inr transcripts \<Rightarrow>
                  (let transcript_text = str_join '' '' (map seg_text transcripts);
                       total_duration = py_sum (map seg_duration transcripts)
                   in case fetch_video_metadata w video_id s1 of
                        (Inl e, s2) \<Rightarrow> (Inl e, s2)
                      | (Inr metadata, s2) \<Rightarrow>
                          (validate YouTubeTranscriptToolOutputSchema
                             [(''transcript'', PStr transcript_text),
                              (''duration'', PNum total_duration),
                              (''comments'', PList []),
                              (''metadata'', PDict metadata)],
                           s2))))"

text \<open>A sequence of calls on the same tool object, each starting where the last one ended.\<close>

fun run_all ::
  "('n::{zero,plus}) world \<Rightarrow> params list \<Rightarrow> 'b sys \<Rightarrow> (error + 'n fields) list \<times> 'b sys" where
  "run_all w [] s = ([], s)"
| "run_all w (p # ps) s =
     (case run w p s of
        (r, s') \<Rightarrow> (case run_all w ps s' of (rs, s'') \<Rightarrow> (r # rs, s'')))"

text \<open>
  The reference the output is compared with: each later segment's text preceded by one
  space, the durations added up, no comments, and the four metadata entries.
\<close>

fun space_joined :: "string list \<Rightarrow> string" where
  "space_joined [] = []"
| "space_joined (x # xs) = x @ concat (map (\<lambda>y. CHR '' '' # y) xs)"

definition reference_output :: "string \<Rightarrow> ('n::{zero,plus}) segment list \<Rightarrow> snippet \<Rightarrow> 'n fields" where
  "reference_output video_id segments info =
     [(''transcript'', PStr (space_joined (map seg_text segments))),
      (''duration'', PNum (py_sum (map seg_duration segments))),
      (''comments'', PList []),
      (''metadata'',
         PDict [(''id'', PStr video_id),
                (''title'', PStr (title info)),
                (''channel'', PStr (channelTitle info)),
                (''published_at'', PStr (publishedAt info))])]"

text \<open>
  What the output schema asks of an instance, in the claim's words: the four fields are
  present, \<open>transcript\<close> is a string, \<open>duration\<close> a number, \<open>comments\<close> a list of strings
  and \<open>metadata\<close> a mapping.
\<close>

definition output_conformant :: "'n fields \<Rightarrow> bool" where
  "output_conformant out =
     ((case map_of out ''transcript'' of Some (PStr t) \<Rightarrow> True | _ \<Rightarrow> False) \<and>
      (case map_of out ''duration'' of Some (PNum d) \<Rightarrow> True | _ \<Rightarrow> False) \<and>
      (case map_of out ''comments'' of
         Some (PList xs) \<Rightarrow> list_all (\<lambda>x. case x of PStr c \<Rightarrow> True | _ \<Rightarrow> False) xs
       | _ \<Rightarrow> False) \<and>
      (case map_of out ''metadata'' of Some (PDict m) \<Rightarrow> True | _ \<Rightarrow> False))"

text \<open>
  What the input schema asks of the raw keyword arguments, in the claim's words:
  \<open>video_url\<close> is present and a string; \<open>language\<close> is omitted, \<open>None\<close> or a string.
\<close>

definition video_url_valid :: "'n fields \<Rightarrow> bool" where
  "video_url_valid raw = (case map_of raw ''video_url'' of Some (PStr u) \<Rightarrow> True | _ \<Rightarrow> False)"

definition language_valid :: "'n fields \<Rightarrow> bool" where
  "language_valid raw =
     (case map_of raw ''language'' of
        None \<Rightarrow> True
      | Some PNone \<Rightarrow> True
      | Some (PStr l) \<Rightarrow> True
      | _ \<Rightarrow> False)"

text \<open>
  Type validity in the words of section 3, stated without reference to the findings: a value
  is type-valid for a field type when it has that type, every element of a list is valid for
  the element type, and a nested mapping holds every required field of the nested schema
  and a valid value for every declared field it supplies.
\<close>

function (sequential) type_valid :: "ftype \<Rightarrow> 'n pyval \<Rightarrow> bool"
  and items_valid :: "ftype \<Rightarrow> 'n pyval list \<Rightarrow> bool"
  and fields_valid :: "field list \<Rightarrow> 'n fields \<Rightarrow> bool"
where
  "type_valid TString (PStr s) = True"
| "type_valid TNumber (PNum n) = True"
| "type_valid TBoolean (PBool b) = True"
| "type_valid TMapping (PDict kvs) = True"
| "type_valid (TOptional t) PNone = True"
| "type_valid (TOptional t) v = type_valid t v"
| "type_valid (TList t) (PList xs) = items_valid t xs"
| "type_valid (TNested fs) (PDict kvs) = fields_valid fs kvs"
| "type_valid t v = False"
| "items_valid t [] = True"
| "items_valid t (x # xs) = (type_valid t x \<and> items_valid t xs)"
| "fields_valid [] kvs = True"
| "fields_valid (f # fs) kvs =
     ((case map_of kvs (fname f) of
         None \<Rightarrow> \<not> required f
       | Some v \<Rightarrow> type_valid (ftype f) v)
      \<and> fields_valid fs kvs)"
  by pat_completeness auto
termination
  by (relation "measures
        [\<lambda>a. case a of
               Inl (t, v) \<Rightarrow> size t
             | Inr (Inl (t, xs)) \<Rightarrow> size t
             | Inr (Inr (fs, kvs)) \<Rightarrow> size_list size fs,
         \<lambda>a. case a of
               Inl (t, v) \<Rightarrow> size v
             | Inr (Inl (t, xs)) \<Rightarrow> size_list size xs
             | Inr (Inr (fs, kvs)) \<Rightarrow> 0]")
     (auto simp: less_Suc_eq_le intro: order.trans [OF less_imp_le [OF size_ftype_field]])

text \<open>
  A declared field is present and type-valid in the raw input, or omitted from it.
\<close>

definition present_valid :: "field \<Rightarrow> 'n fields \<Rightarrow> bool" where
  "present_valid f raw =
     (case map_of raw (fname f) of None \<Rightarrow> False | Some v \<Rightarrow> type_valid (ftype f) v)"

definition omitted :: "field \<Rightarrow> 'n fields \<Rightarrow> bool" where
  "omitted f raw = (map_of raw (fname f) = None)"

text \<open>The findings of \<open>check_fields\<close> that stem from one declared field.\<close>

definition field_findings :: "field \<Rightarrow> 'n fields \<Rightarrow> pathel list \<Rightarrow> verr list" where
  "field_findings f raw p =
     (case map_of raw (fname f) of
        None \<Rightarrow> (if required f then [Missing (p @ [Key (fname f)])] else [])
      | Some v \<Rightarrow> check (ftype f) v (p @ [Key (fname f)]))"

subsection \<open>A concrete setting\<close>

text \<open>
  The example of the source's main block (video \<open>t1e8gqXLbsU\<close>, language \<open>en\<close>) with
  stand-ins for the two services: a video with two transcript segments, one without a
  transcript, one with transcripts disabled, one that is unavailable; metadata is served
  only with a key, and only for the first video.
\<close>

definition example_world :: "real world" where
  "example_world =
     \<lparr>get_transcript = (\<lambda>video_id languages.
        if video_id = ''t1e8gqXLbsU'' then
          Inr [\<lparr>seg_text = ''hello'', seg_start = 0, seg_duration = 1.5\<rparr>,
               \<lparr>seg_text = ''world'', seg_start = 1.5, seg_duration = 2\<rparr>]
        else if video_id = ''disabled'' then Inl (TranscriptsDisabled ''subtitles are disabled'')
        else if video_id = ''gone'' then Inl (ExternalError ''VideoUnavailable'' ''video unavailable'')
        else if video_id = ''nometa'' then Inr []
        else Inl (NoTranscriptFound ''no transcript found'')),
      videos_list = (\<lambda>key part video_id.
        if key = None then Inl (ExternalError ''HttpError'' ''key missing'')
        else if video_id = ''t1e8gqXLbsU'' then
          Inr \<lparr>items = [\<lparr>video_snippet =
                 \<lparr>title = ''Talk'', channelTitle = ''Channel'', publishedAt = ''2024-01-01''\<rparr>\<rparr>]\<rparr>
        else Inr \<lparr>items = []\<rparr>)\<rparr>"

definition example_params :: params where
  "example_params =
     \<lparr>video_url = ''https://www.youtube.com/watch?v=t1e8gqXLbsU'', language = Some ''en''\<rparr>"

definition watch :: "string \<Rightarrow> params" where
  "watch video_id = \<lparr>video_url = ''https://www.youtube.com/watch?v='' @ video_id, language = None\<rparr>"

definition example_sys :: "unit sys" where
  "example_sys =
     \<lparr>self = init (\<lambda>environ config. ()) (\<lambda>name. None) \<lparr>config_api_key = Some ''KEY''\<rparr>,
      calls = []\<rparr>"

section \<open>Agent Execution Loop\<close>

text \<open>
  Modelled from the spec: the whole of this section, from sections 3, 4 and 7. The classes
  \<open>BaseAgent\<close>, \<open>SystemPromptGenerator\<close>, \<open>BaseTool\<close> and \<open>ToolInterfaceAgent\<close> are imported
  by the sources but are not among them; the examples only construct and call them. One call
  of \<open>run\<close> on one agent is modelled from start to end; a second call while one is in flight
  (section 5) has no place in a sequential model and is left out. Messages, with their roles,
  are as in section 3.
\<close>

datatype role = User | Assistant | System | Tool

record 'n message =
  role :: role
  payload :: "'n fields"

text \<open>
  Modelled from the spec: the System Prompt Builder (\<open>SystemPromptGenerator\<close>, not among the
  sources) of section 4.2. The rendered prompt is kept as a structure: the three fragment
  lists in order and, when a tool is bound, the description of the tool's input schema.
\<close>

record system_prompt_generator =
  background :: "string list"
  steps :: "string list"
  output_instructions :: "string list"

record prompt =
  prompt_fragments :: "string list"
  prompt_tool_block :: "(string \<times> string \<times> string \<times> bool) list option"

definition render :: "system_prompt_generator \<Rightarrow> schema option \<Rightarrow> prompt" where
  "render g bound_tool_input =
     \<lparr>prompt_fragments = background g @ steps g @ output_instructions g,
      prompt_tool_block = map_option describe bound_tool_input\<rparr>"

text \<open>
  Modelled from the spec: a Tool Descriptor (section 3) and the Tool Contract's \<open>run\<close>
  (section 4.3; \<open>BaseTool\<close> is not among the sources). \<open>tool_capability\<close> is the external
  side effect; the contract validates what it produced against the tool's output schema
  before returning, and a failure is reported with the tool's name and the cause.
\<close>

record 'n tool_descriptor =
  tool_name :: string
  tool_input :: schema
  tool_output :: schema
  tool_capability :: "'n fields \<Rightarrow> error + 'n fields"

definition tool_contract_run :: "'n tool_descriptor \<Rightarrow> 'n fields \<Rightarrow> error + 'n fields" where
  "tool_contract_run t request =
     (case tool_capability t request of
        Inl cause \<Rightarrow> Inl (ToolError (tool_name t) cause)
      | Inr produced \<Rightarrow>
          (case validate (tool_output t) produced of
             Inl cause \<Rightarrow> Inl (ToolError (tool_name t) cause)
           | Inr result \<Rightarrow> Inr result))"

text \<open>
  Modelled from the spec: the request handed to the model backend (step 3 of section 4.4),
  the Agent Configuration of section 3 (\<open>BaseAgentConfig\<close>, not among the sources) with the
  backend handle \<open>client\<close> of section 6, and the agent with its Conversation Memory.
\<close>

record 'n request =
  request_model :: string
  request_system :: prompt
  request_messages :: "'n message list"
  request_format :: "(string \<times> string \<times> string \<times> bool) list"

record 'n agent_config =
  client :: "'n request \<Rightarrow> error + 'n fields"
  model :: string
  generator :: system_prompt_generator
  input_schema :: schema
  output_schema :: schema
  tool :: "'n tool_descriptor option"

record 'n agent =
  config :: "'n agent_config"
  memory :: "'n message list"

definition build_request :: "'n agent_config \<Rightarrow> 'n message list \<Rightarrow> 'n request" where
  "build_request cfg messages =
     \<lparr>request_model = model cfg,
      request_system = render (generator cfg) (map_option tool_input (tool cfg)),
      request_messages = messages,
      request_format = describe (output_schema cfg)\<rparr>"

text \<open>
  Modelled from the spec: the decision rule of section 4.5. A response asks for the bound
  tool if and only if it conforms to the tool-invocation variant of the output schema, which
  is the tool's input schema; an agent without a tool never dispatches.
\<close>

definition tool_requested ::
  "'n agent_config \<Rightarrow> 'n fields \<Rightarrow> ('n tool_descriptor \<times> 'n fields) option" where
  "tool_requested cfg raw =
     (case tool cfg of
        None \<Rightarrow> None
      | Some t \<Rightarrow>
          (case validate (tool_input t) raw of
             Inl e \<Rightarrow> None
           | Inr request \<Rightarrow> Some (t, request)))"

text \<open>
  Modelled from the spec: step 5 of section 4.4, parsing a response as a final answer. A
  response that fails validation against the output schema is a
  \<open>ModelOutputValidationError\<close> with the findings.
\<close>

definition parse_final :: "'n agent_config \<Rightarrow> 'n fields \<Rightarrow> error + 'n fields" where
  "parse_final cfg raw =
     (case validate (output_schema cfg) raw of
        Inl (SchemaValidationError name findings) \<Rightarrow> Inl (ModelOutputValidationError findings)
      | Inl e \<Rightarrow> Inl e
      | Inr out \<Rightarrow> Inr out)"

text \<open>
  Modelled from the spec: the response to the follow-up request after a tool call. There is
  exactly one additional round-trip, so whichever variant of the output schema the response
  conforms to is the output of the turn.
\<close>

definition parse_follow_up :: "'n agent_config \<Rightarrow> 'n fields \<Rightarrow> error + 'n fields" where
  "parse_follow_up cfg raw =
     (case tool_requested cfg raw of
        Some (t, request) \<Rightarrow> Inr request
      | None \<Rightarrow> parse_final cfg raw)"

text \<open>
  Modelled from the spec: \<open>run\<close> of section 4.4 (\<open>BaseAgent.run\<close>, not among the sources),
  steps 1 to 8. The user message is appended before the backend is called and stays on any
  later failure; the tool message and the assistant message are appended together once the
  turn has its output, so a failed step leaves no part of them (section 7). The whole memory
  is forwarded to the backend.
\<close>

definition agent_run :: "'n agent \<Rightarrow> 'n fields \<Rightarrow> (error + 'n fields) \<times> 'n agent" where
  "agent_run a input =
     (let cfg = config a
      in case validate (input_schema cfg) input of
           Inl e \<Rightarrow> (Inl e, a)
         | Inr inp \<Rightarrow>
             (let a1 = a\<lparr>memory := memory a @ [\<lparr>role = User, payload = inp\<rparr>]\<rparr>
              in case client cfg (build_request cfg (memory a1)) of
                   Inl e \<Rightarrow> (Inl e, a1)
                 | Inr raw \<Rightarrow>
                     (case tool_requested cfg raw of
                        None \<Rightarrow>
                          (case parse_final cfg raw of
                             Inl e \<Rightarrow> (Inl e, a1)
                           | Inr out \<Rightarrow>
                               (Inr out,
                                a1\<lparr>memory := memory a1 @ [\<lparr>role = Assistant, payload = out\<rparr>]\<rparr>))
                      | Some (t, request) \<Rightarrow>
                          (case tool_contract_run t request of
                             Inl e \<Rightarrow> (Inl e, a1)
                           | Inr result \<Rightarrow>
                               (let tool_message = \<lparr>role = Tool, payload = result\<rparr>
                                in case client cfg
                                          (build_request cfg (memory a1 @ [tool_message])) of
                                     Inl e \<Rightarrow> (Inl e, a1)
                                   | Inr raw2 \<Rightarrow>
                                       (case parse_follow_up cfg raw2 of
                                          Inl e \<Rightarrow> (Inl e, a1)
                                        | Inr out \<Rightarrow>
                                            (Inr out,
                                             a1\<lparr>memory := memory a1 @
                                                  [tool_message,
                                                   \<lparr>role = Assistant, payload = out\<rparr>]\<rparr>)))))))"

text \<open>Modelled from the spec: repeated calls of \<open>run\<close> on the same agent, one per input.\<close>

fun agent_run_all :: "'n agent \<Rightarrow> 'n fields list \<Rightarrow> (error + 'n fields) list \<times> 'n agent" where
  "agent_run_all a [] = ([], a)"
| "agent_run_all a (input # inputs) =
     (case agent_run a input of
        (r, a') \<Rightarrow> (case agent_run_all a' inputs of (rs, a'') \<Rightarrow> (r # rs, a'')))"

text \<open>
  A concrete agent after the question-answering example of the sources: one input field
  \<open>question\<close>, one output field \<open>markdown_output\<close>, no tool, and a stub backend that always
  returns the given payload.
\<close>

definition AnswerAgentInputSchema :: schema where
  "AnswerAgentInputSchema =
     \<lparr>sname = ''AnswerAgentInputSchema'',
      sdoc = ''This schema defines the input schema for the AnswerAgent.'',
      sfields =
        [Field ''question'' TString
           ''A question that needs to be answered based on the provided context.'' True]\<rparr>"

definition AnswerAgentOutputSchema :: schema where
  "AnswerAgentOutputSchema =
     \<lparr>sname = ''AnswerAgentOutputSchema'',
      sdoc = ''This schema defines the output schema for the AnswerAgent.'',
      sfields =
        [Field ''markdown_output'' TString
           ''The answer to the question in markdown format.'' True]\<rparr>"

definition answer_agent :: "real fields \<Rightarrow> real message list \<Rightarrow> real agent" where
  "answer_agent stub_payload history =
     \<lparr>config =
        \<lparr>client = (\<lambda>request. Inr stub_payload),
         model = ''gpt-4o-mini'',
         generator =
           \<lparr>background = [''You are an intelligent answering expert.''],
            steps = [''Generate a detailed and accurate answer based on the context.''],
            output_instructions = [''Ensure clarity and conciseness in each answer.'']\<rparr>,
         input_schema = AnswerAgentInputSchema,
         output_schema = AnswerAgentOutputSchema,
         tool = None\<rparr>,
      memory = history\<rparr>"

text \<open>
  A concrete agent with a bound tool, after the web-search example of the sources: the stub
  backend first asks for the tool and, once a tool result is in the request, returns the
  given follow-up payload; the stub tool returns one result.
\<close>

definition search_tool :: "real tool_descriptor" where
  "search_tool =
     \<lparr>tool_name = ''SearxNGTool'',
      tool_input = \<lparr>sname = ''SearxNGToolInputSchema'', sdoc = [],
                    sfields = [Field ''query'' TString [] True]\<rparr>,
      tool_output = \<lparr>sname = ''SearxNGToolOutputSchema'', sdoc = [],
                     sfields = [Field ''results'' (TList TString) [] True]\<rparr>,
      tool_capability = (\<lambda>request. Inr [(''results'', PList [PStr ''first hit''])])\<rparr>"

definition search_config :: "(real request \<Rightarrow> error + real fields) \<Rightarrow> real agent_config" where
  "search_config backend =
     \<lparr>client = backend,
      model = ''gpt-4o-mini'',
      generator = \<lparr>background = [], steps = [], output_instructions = []\<rparr>,
      input_schema = \<lparr>sname = ''ToolInterfaceAgentInputSchema'', sdoc = [],
                       sfields = [Field ''tool_input_SearxNGTool'' TString [] True]\<rparr>,
      output_schema = \<lparr>sname = ''ToolInterfaceAgentOutputSchema'', sdoc = [],
                        sfields = [Field ''chat_message'' TString [] True]\<rparr>,
      tool = Some search_tool\<rparr>"

definition search_agent :: "real fields \<Rightarrow> real message list \<Rightarrow> real agent" where
  "search_agent follow_up history =
     \<lparr>config =
        search_config (\<lambda>request.
           if list_ex (\<lambda>m. role m = Tool) (request_messages request)
           then Inr follow_up
           else Inr [(''query'', PStr ''cats'')]),
      memory = history\<rparr>"

text \<open>The same agent with a backend stub that always returns one payload.\<close>

definition stubbed_search_agent :: "real fields \<Rightarrow> real message list \<Rightarrow> real agent" where
  "stubbed_search_agent stub_payload history =
     \<lparr>config = search_config (\<lambda>request. Inr stub_payload), memory = history\<rparr>"

section \<open>Properties of the video id extraction\<close>



lemma split_from_ne: "str_split_from sep cur s \<noteq> []"
  by (induction sep cur s rule: str_split_from.induct) auto

lemma occurrences_Nil: "occurrences (p # ps) [] = []"
  by (simp add: occurrences_def)

lemma occurrences_Cons:
  "occurrences pat (c # cs) =
     (if prefix pat (c # cs) then [0] else []) @ map Suc (occurrences pat cs)"
proof -
  have "[0..<Suc (length (c # cs))] = 0 # map Suc [0..<Suc (length cs)]"
    by (simp add: upt_conv_Cons map_Suc_upt del: upt_Suc)
  then show ?thesis
    by (simp add: occurrences_def filter_map comp_def del: upt_Suc)
qed

lemma hd_split_char:
  "hd (str_split_from [d] cur s) = cur @ takeWhile (\<lambda>c. c \<noteq> d) s"
  by (induction s arbitrary: cur) auto

lemma last_split_marker:
  "last (str_split_from ''v='' cur s) =
     (if occurrences ''v='' s = [] then cur @ s else drop (last (occurrences ''v='' s) + 2) s)"
proof (induction "''v=''" cur s rule: str_split_from.induct)
  case (1 cur)
  then show ?case by (simp add: occurrences_Nil)
next
  case (2 cur c cs)
  show ?case
  proof (cases "prefix ''v='' (c # cs)")
    case True
    then obtain r where cs: "c = CHR ''v''" "cs = CHR ''='' # r"
      by (auto elim!: prefixE)
    have occ: "occurrences ''v='' (CHR ''v'' # CHR ''='' # r) =
        0 # map (\<lambda>i. Suc (Suc i)) (occurrences ''v='' r)"
      by (simp add: occurrences_Cons)
    from True 2(1) have IH: "last (str_split_from ''v='' [] r) =
        (if occurrences ''v='' r = [] then r else drop (last (occurrences ''v='' r) + 2) r)"
      by (simp add: cs)
    show ?thesis
      by (simp add: cs IH occ split_from_ne last_map)
  next
    case False
    have step: "str_split_from ''v='' cur (c # cs) = str_split_from ''v='' (cur @ [c]) cs"
      by (subst str_split_from.simps) (simp only: False simp_thms if_False)
    have occ: "occurrences ''v='' (c # cs) = map Suc (occurrences ''v='' cs)"
      by (subst occurrences_Cons) (simp only: False if_False append_Nil)
    have IH: "last (str_split_from ''v='' (cur @ [c]) cs) =
        (if occurrences ''v='' cs = [] then (cur @ [c]) @ cs
         else drop (last (occurrences ''v='' cs) + 2) cs)"
      by (rule 2(2)) (simp only: False simp_thms)
    show ?thesis
      unfolding step occ IH by (simp add: last_map)
  qed
qed

lemma list_index_last: "xs \<noteq> [] \<Longrightarrow> list_index xs (- 1) = Inr (last xs)"
proof -
  assume ne: "xs \<noteq> []"
  then have "nat (int (length xs) + - 1) = length xs - 1" by (cases xs) auto
  with ne show ?thesis
    by (simp add: list_index_def Let_def last_conv_nth)
qed

lemma list_index_first: "xs \<noteq> [] \<Longrightarrow> list_index xs 0 = Inr (hd xs)"
  by (simp add: list_index_def hd_conv_nth)


lemma occurrences_step:
  assumes "occurrences pat r \<noteq> []"
  shows "occurrences pat (c # r) \<noteq> [] \<and>
         drop (last (occurrences pat (c # r)) + 2) (c # r) = drop (last (occurrences pat r) + 2) r"
  using assms by (simp add: occurrences_Cons last_map)

lemma occurrences_marker_append:
  "occurrences ''v='' post = [] \<Longrightarrow>
   occurrences ''v='' (pre @ ''v='' @ post) \<noteq> [] \<and>
   drop (last (occurrences ''v='' (pre @ ''v='' @ post)) + 2) (pre @ ''v='' @ post) = post"
proof (induction pre)
  case Nil
  then show ?case by (simp add: occurrences_Cons)
next
  case (Cons c pre)
  then have IH: "occurrences ''v='' (pre @ ''v='' @ post) \<noteq> []"
    "drop (last (occurrences ''v='' (pre @ ''v='' @ post)) + 2) (pre @ ''v='' @ post) = post"
    by blast+
  have eq: "(c # pre) @ ''v='' @ post = c # (pre @ ''v='' @ post)" by simp
  show ?case
    unfolding eq using occurrences_step [OF IH(1), of c] IH(2) by presburger
qed

lemma after_last_marker_decomposed:
  "occurrences ''v='' post = [] \<Longrightarrow> after_last_marker (pre @ ''v='' @ post) = post"
  using occurrences_marker_append [of post pre] by (simp add: after_last_marker_def Let_def)

lemma extract_video_id_eq: "extract_video_id url = Inr (video_id_reference url)"
  by (simp add: extract_video_id_def str_split_def list_index_last list_index_first
      split_from_ne last_split_marker hd_split_char video_id_reference_def after_last_marker_def
      Let_def del: str_split_from.simps)

text \<open>
  C9: for every URL, \<open>extract_video_id\<close> returns and its value is the text strictly between
  the last occurrence of \<open>v=\<close> and the first \<open>&\<close> behind it (the end of the string when
  none follows); a URL with no \<open>v=\<close> gives the whole URL up to its first \<open>&\<close>, so a short
  link yields a value that is not a video id.
\<close>

theorem extract_video_id_reference:
  "extract_video_id url = Inr (video_id_reference url) \<and>
   (occurrences ''v='' url = [] \<longrightarrow>
      extract_video_id url = Inr (takeWhile (\<lambda>c. c \<noteq> CHR ''&'') url))"
  by (simp add: extract_video_id_eq video_id_reference_def after_last_marker_def)

theorem extract_video_id_reference_witness:
  "occurrences ''v='' ''https://youtu.be/abc&t=1'' = [] \<and>
   extract_video_id ''https://youtu.be/abc&t=1'' = Inr ''https://youtu.be/abc'' \<and>
   extract_video_id ''https://www.youtube.com/watch?v=t1e8gqXLbsU&t=3'' = Inr ''t1e8gqXLbsU''"
  using extract_video_id_reference [of "''https://youtu.be/abc&t=1''"]
    extract_video_id_reference [of "''https://www.youtube.com/watch?v=t1e8gqXLbsU&t=3''"]
  by (simp add: occurrences_def video_id_reference_def after_last_marker_def)

section \<open>Properties of the transcript tool\<close>

lemma config_default_from_environment:
  "config_api_key (YouTubeTranscriptToolConfig import_env None) = import_env ''YOUTUBE_API_KEY'' \<and>
   config_api_key (YouTubeTranscriptToolConfig import_env (Some k)) = Some k"
  by (simp add: YouTubeTranscriptToolConfig_def)

lemma str_join_space: "str_join '' '' xs = space_joined xs"
  by (induction "'' ''" xs rule: str_join.induct) simp_all

lemma py_sum_monoid: "py_sum (xs :: ('a::monoid_add) list) = sum_list xs"
proof -
  have "foldl (+) a xs = a + sum_list xs" for a :: 'a
    by (induction xs arbitrary: a) (simp_all add: add.assoc)
  from this [of 0] show ?thesis by (simp add: py_sum_def)
qed

lemma validate_output:
  "validate YouTubeTranscriptToolOutputSchema
     [(''transcript'', PStr t), (''duration'', PNum d), (''comments'', PList []),
      (''metadata'', PDict m)] =
   Inr [(''transcript'', PStr t), (''duration'', PNum d), (''comments'', PList []),
        (''metadata'', PDict m)]"
  by (simp add: validate_def YouTubeTranscriptToolOutputSchema_def instance_of_def)

lemma fetch_video_metadata_cases:
  "fetch_video_metadata w vid s =
     (case videos_list w (api_key (self s)) ''snippet'' vid of
        Inl e \<Rightarrow> Inl e
      | Inr r \<Rightarrow>
          (case items r of
             [] \<Rightarrow> Inl (Exception (''No metadata found for video '' @ apostrophe @ vid @ apostrophe))
           | item # rest \<Rightarrow>
               Inr [(''id'', PStr vid),
                    (''title'', PStr (title (video_snippet item))),
                    (''channel'', PStr (channelTitle (video_snippet item))),
                    (''published_at'', PStr (publishedAt (video_snippet item)))]),
      s\<lparr>calls := calls s @ [VideosList (api_key (self s)) ''snippet'' vid]\<rparr>)"
  by (simp add: fetch_video_metadata_def Let_def split: sum.split list.split)

lemma run_cases:
  "run w params s =
    (let vid = video_id_reference (video_url params);
         langs = requested_languages params;
         s1 = s\<lparr>calls := calls s @ [GetTranscript vid langs]\<rparr>
     in case get_transcript w vid langs of
          Inl e \<Rightarrow> (Inl (transcript_failure vid e), s1)
        | Inr segs \<Rightarrow>
           (case videos_list w (api_key (self s)) ''snippet'' vid of
              Inl e \<Rightarrow> (Inl e, s1\<lparr>calls := calls s1 @ [VideosList (api_key (self s)) ''snippet'' vid]\<rparr>)
            | Inr r \<Rightarrow>
               (case items r of
                  [] \<Rightarrow> (Inl (Exception (''No metadata found for video '' @ apostrophe @ vid @ apostrophe)),
                         s1\<lparr>calls := calls s1 @ [VideosList (api_key (self s)) ''snippet'' vid]\<rparr>)
                | item # rest \<Rightarrow>
                    (Inr (reference_output vid segs (video_snippet item)),
                     s1\<lparr>calls := calls s1 @ [VideosList (api_key (self s)) ''snippet'' vid]\<rparr>))))"
  by (simp add: run_def extract_video_id_eq Let_def fetch_video_metadata_cases validate_output
      reference_output_def str_join_space split: sum.split list.split)

lemma video_id_examples:
  "video_id_reference ''https://www.youtube.com/watch?v=t1e8gqXLbsU'' = ''t1e8gqXLbsU''"
  "video_id_reference ''https://www.youtube.com/watch?v=missing'' = ''missing''"
  "video_id_reference ''https://www.youtube.com/watch?v=disabled'' = ''disabled''"
  "video_id_reference ''https://www.youtube.com/watch?v=gone'' = ''gone''"
  "video_id_reference ''https://www.youtube.com/watch?v=nometa'' = ''nometa''"
  by (simp_all add: video_id_reference_def after_last_marker_def occurrences_def)

lemma run_example:
  "run example_world example_params example_sys =
     (Inr [(''transcript'', PStr ''hello world''), (''duration'', PNum 3.5),
           (''comments'', PList []),
           (''metadata'', PDict [(''id'', PStr ''t1e8gqXLbsU''), (''title'', PStr ''Talk''),
                                 (''channel'', PStr ''Channel''),
                                 (''published_at'', PStr ''2024-01-01'')])],
      example_sys\<lparr>calls := [GetTranscript ''t1e8gqXLbsU'' (Some [''en'']),
                              VideosList (Some ''KEY'') ''snippet'' ''t1e8gqXLbsU'']\<rparr>)"
  by (simp add: run_cases video_id_examples Let_def example_world_def example_sys_def init_def
      reference_output_def py_sum_def requested_languages_def example_params_def)

lemma run_result_cases:
  "fst (run w params s) =
    (let vid = video_id_reference (video_url params)
     in case get_transcript w vid (requested_languages params) of
          Inl e \<Rightarrow> Inl (transcript_failure vid e)
        | Inr segs \<Rightarrow>
           (case videos_list w (api_key (self s)) ''snippet'' vid of
              Inl e \<Rightarrow> Inl e
            | Inr r \<Rightarrow>
               (case items r of
                  [] \<Rightarrow> Inl (Exception
                          (''No metadata found for video '' @ apostrophe @ vid @ apostrophe))
                | item # rest \<Rightarrow> Inr (reference_output vid segs (video_snippet item)))))"
  by (simp add: run_cases Let_def split: sum.split list.split)

lemma run_calls_cases:
  "calls (snd (run w params s)) =
     calls s @
     (let vid = video_id_reference (video_url params)
      in GetTranscript vid (requested_languages params) #
         (case get_transcript w vid (requested_languages params) of
            Inl e \<Rightarrow> []
          | Inr segs \<Rightarrow> [VideosList (api_key (self s)) ''snippet'' vid]))"
  by (simp add: run_cases Let_def split: sum.split list.split)

lemma run_self: "self (snd (run w params s)) = self s"
  by (simp add: run_cases Let_def split: sum.split list.split)

lemma run_all_self: "self (snd (run_all w ps s)) = self s"
proof (induction ps arbitrary: s)
  case Nil
  show ?case by simp
next
  case (Cons p ps)
  obtain r s' where r: "run w p s = (r, s')" by (cases "run w p s")
  obtain rs s'' where rs: "run_all w ps s' = (rs, s'')" by (cases "run_all w ps s'")
  have "self s'' = self s'" using Cons [of s'] rs by simp
  moreover have "self s' = self s" using run_self [of w p s] r by simp
  ultimately show ?case by (simp add: r rs)
qed

lemma reference_output_valid:
  "validate YouTubeTranscriptToolOutputSchema (reference_output vid segs info) =
     Inr (reference_output vid segs info)"
  by (simp add: reference_output_def validate_output)

lemma reference_output_conformant: "output_conformant (reference_output vid segs info)"
  by (simp add: reference_output_def output_conformant_def)

lemma run_returns_reference:
  assumes "fst (run w params s) = Inr out"
  shows "\<exists>segs item rest r.
           get_transcript w (video_id_reference (video_url params)) (requested_languages params)
             = Inr segs \<and>
           videos_list w (api_key (self s)) ''snippet'' (video_id_reference (video_url params))
             = Inr r \<and>
           items r = item # rest \<and>
           out = reference_output (video_id_reference (video_url params)) segs (video_snippet item)"
  using assms by (auto simp: run_result_cases Let_def split: sum.splits list.splits)

text \<open>
  C1: whenever \<open>run\<close> returns, the value it returns is a validated instance of
  \<open>YouTubeTranscriptToolOutputSchema\<close>: validating it again gives it back unchanged, and its
  four fields \<open>transcript\<close> (string), \<open>duration\<close> (number), \<open>comments\<close> (list of strings) and
  \<open>metadata\<close> (mapping) are present and type-valid.
\<close>

theorem run_output_validated:
  assumes "fst (run w params s) = Inr out"
  shows "validate YouTubeTranscriptToolOutputSchema out = Inr out \<and> output_conformant out"
proof -
  from run_returns_reference [OF assms] obtain segs info where
    "out = reference_output (video_id_reference (video_url params)) segs info"
    by blast
  then show ?thesis
    by (simp add: reference_output_valid reference_output_conformant)
qed

theorem run_output_validated_witness:
  "\<exists>out. fst (run example_world example_params example_sys) = Inr out \<and>
         validate YouTubeTranscriptToolOutputSchema out = Inr out \<and> output_conformant out"
proof -
  obtain out where out: "fst (run example_world example_params example_sys) = Inr out"
    by (simp add: run_example)
  from run_output_validated [OF out] out show ?thesis by blast
qed

text \<open>
  C2, as the code has it: \<open>run\<close> fails exactly when the transcript fetch raises, the metadata
  request raises, or the metadata lookup returns no items, and otherwise returns a result.
  \<open>NoTranscriptFound\<close> and \<open>TranscriptsDisabled\<close> are replaced by a generic \<open>Exception\<close>
  whose message gives the video id and the cause's text, an empty lookup raises a generic
  \<open>Exception\<close> whose message gives the video id, and every other exception of the two calls
  passes through unchanged. \<open>run\<close> itself raises no \<open>ToolError\<close>: a failure is one only when
  an external call raised that very \<open>ToolError\<close>. In each failing case the result is the
  failure, never an output.
\<close>

theorem run_failure_cases:
  fixes w :: "('n::{zero,plus}) world"
  defines "vid \<equiv> \<lambda>params. video_id_reference (video_url params)"
  shows
   "(get_transcript w (vid params) (requested_languages params) = Inl (NoTranscriptFound m) \<longrightarrow>
       fst (run w params s) = Inl (Exception
         (''Failed to fetch transcript for video '' @ apostrophe @ vid params @ apostrophe
            @ '': '' @ m))) \<and>
    (get_transcript w (vid params) (requested_languages params) = Inl (TranscriptsDisabled m) \<longrightarrow>
       fst (run w params s) = Inl (Exception
         (''Failed to fetch transcript for video '' @ apostrophe @ vid params @ apostrophe
            @ '': '' @ m))) \<and>
    (get_transcript w (vid params) (requested_languages params) = Inl e \<and>
     (\<forall>t. e \<noteq> NoTranscriptFound t \<and> e \<noteq> TranscriptsDisabled t) \<longrightarrow>
       fst (run w params s) = Inl e) \<and>
    (get_transcript w (vid params) (requested_languages params) = Inr segs \<and>
     videos_list w (api_key (self s)) ''snippet'' (vid params) = Inl e \<longrightarrow>
       fst (run w params s) = Inl e) \<and>
    (get_transcript w (vid params) (requested_languages params) = Inr segs \<and>
     videos_list w (api_key (self s)) ''snippet'' (vid params) = Inr r \<and> items r = [] \<longrightarrow>
       fst (run w params s) = Inl (Exception
         (''No metadata found for video '' @ apostrophe @ vid params @ apostrophe))) \<and>
    (get_transcript w (vid params) (requested_languages params) = Inr segs \<and>
     videos_list w (api_key (self s)) ''snippet'' (vid params) = Inr r \<and> items r \<noteq> [] \<longrightarrow>
       (\<exists>out. fst (run w params s) = Inr out)) \<and>
    ((\<exists>out. fst (run w params s) = Inr out) =
     (\<exists>got found.
        get_transcript w (vid params) (requested_languages params) = Inr got \<and>
        videos_list w (api_key (self s)) ''snippet'' (vid params) = Inr found \<and>
        items found \<noteq> [])) \<and>
    (\<forall>name cause.
       fst (run w params s) = Inl (ToolError name cause) \<longrightarrow>
         get_transcript w (vid params) (requested_languages params)
           = Inl (ToolError name cause) \<or>
         (\<exists>got.
            get_transcript w (vid params) (requested_languages params) = Inr got \<and>
            videos_list w (api_key (self s)) ''snippet'' (vid params)
              = Inl (ToolError name cause)))"
proof -
  have other: "transcript_failure v e = e"
    if "\<forall>t. e \<noteq> NoTranscriptFound t \<and> e \<noteq> TranscriptsDisabled t" for v
    using that by (cases e) simp_all
  have passed: "e' = ToolError name cause"
    if "transcript_failure v e' = ToolError name cause" for v e' name cause
    using that by (cases e') simp_all
  have cases: "(get_transcript w (vid params) (requested_languages params) = Inl (NoTranscriptFound m) \<longrightarrow>
       fst (run w params s) = Inl (Exception
         (''Failed to fetch transcript for video '' @ apostrophe @ vid params @ apostrophe
            @ '': '' @ m))) \<and>
    (get_transcript w (vid params) (requested_languages params) = Inl (TranscriptsDisabled m) \<longrightarrow>
       fst (run w params s) = Inl (Exception
         (''Failed to fetch transcript for video '' @ apostrophe @ vid params @ apostrophe
            @ '': '' @ m))) \<and>
    (get_transcript w (vid params) (requested_languages params) = Inl e \<and>
     (\<forall>t. e \<noteq> NoTranscriptFound t \<and> e \<noteq> TranscriptsDisabled t) \<longrightarrow>
       fst (run w params s) = Inl e) \<and>
    (get_transcript w (vid params) (requested_languages params) = Inr segs \<and>
     videos_list w (api_key (self s)) ''snippet'' (vid params) = Inl e \<longrightarrow>
       fst (run w params s) = Inl e) \<and>
    (get_transcript w (vid params) (requested_languages params) = Inr segs \<and>
     videos_list w (api_key (self s)) ''snippet'' (vid params) = Inr r \<and> items r = [] \<longrightarrow>
       fst (run w params s) = Inl (Exception
         (''No metadata found for video '' @ apostrophe @ vid params @ apostrophe))) \<and>
    (get_transcript w (vid params) (requested_languages params) = Inr segs \<and>
     videos_list w (api_key (self s)) ''snippet'' (vid params) = Inr r \<and> items r \<noteq> [] \<longrightarrow>
       (\<exists>out. fst (run w params s) = Inr out))"
    unfolding vid_def
    by (auto simp: run_result_cases Let_def other split: list.splits)
  have returns: "(\<exists>out. fst (run w params s) = Inr out) =
     (\<exists>got found.
        get_transcript w (vid params) (requested_languages params) = Inr got \<and>
        videos_list w (api_key (self s)) ''snippet'' (vid params) = Inr found \<and>
        items found \<noteq> [])"
    unfolding vid_def
    by (auto simp: run_result_cases Let_def split: sum.splits list.splits)
  have tool_error: "\<forall>name cause.
       fst (run w params s) = Inl (ToolError name cause) \<longrightarrow>
         get_transcript w (vid params) (requested_languages params)
           = Inl (ToolError name cause) \<or>
         (\<exists>got.
            get_transcript w (vid params) (requested_languages params) = Inr got \<and>
            videos_list w (api_key (self s)) ''snippet'' (vid params)
              = Inl (ToolError name cause))"
    unfolding vid_def
    by (auto simp: run_result_cases Let_def split: sum.splits list.splits dest: passed)
  from cases returns tool_error show ?thesis by (intro conjI) (elim conjE, assumption)+
qed

theorem run_failure_cases_witness:
  "get_transcript example_world ''missing'' None = Inl (NoTranscriptFound ''no transcript found'') \<and>
   fst (run example_world (watch ''missing'') example_sys) =
     Inl (Exception (''Failed to fetch transcript for video '' @ apostrophe @ ''missing''
                       @ apostrophe @ '': no transcript found'')) \<and>
   fst (run example_world (watch ''nometa'') example_sys) =
     Inl (Exception (''No metadata found for video '' @ apostrophe @ ''nometa'' @ apostrophe)) \<and>
   (\<exists>out. fst (run example_world example_params example_sys) = Inr out)"
proof -
  have a: "get_transcript example_world ''missing'' None =
             Inl (NoTranscriptFound ''no transcript found'')"
    by (simp add: example_world_def)
  have b: "get_transcript example_world ''nometa'' None = Inr []"
    by (simp add: example_world_def)
  have c: "videos_list example_world (Some ''KEY'') ''snippet'' ''nometa'' = Inr \<lparr>items = []\<rparr>"
    by (simp add: example_world_def)
  have k: "api_key (self example_sys) = Some ''KEY''"
    by (simp add: example_sys_def init_def)
  have 1: "fst (run example_world (watch ''missing'') example_sys) =
     Inl (Exception (''Failed to fetch transcript for video '' @ apostrophe @ ''missing''
                       @ apostrophe @ '': no transcript found''))"
    using run_failure_cases [of example_world "watch ''missing''" "''no transcript found''"
        example_sys] a
    by (simp add: watch_def video_id_examples requested_languages_def)
  have 2: "fst (run example_world (watch ''nometa'') example_sys) =
     Inl (Exception (''No metadata found for video '' @ apostrophe @ ''nometa'' @ apostrophe))"
    using run_failure_cases [of example_world "watch ''nometa''" _ example_sys _ "[]"
        "\<lparr>items = []\<rparr>"] b c k
    by (simp add: watch_def video_id_examples requested_languages_def)
  show ?thesis using a 1 2 by (simp add: run_example)
qed

text \<open>
  C2 as stated fails twice. When no transcript is found the failure is a generic
  \<open>Exception\<close>, not a \<open>ToolError\<close>, and its message does not contain the tool's name; and when
  the transcript library raises another exception (here for an unavailable video) \<open>run\<close>
  fails although neither \<open>NoTranscriptFound\<close> nor \<open>TranscriptsDisabled\<close> was raised and the
  metadata lookup was never made.
\<close>

theorem run_failure_counterexample:
  "fst (run example_world (watch ''missing'') example_sys) =
     Inl (Exception (''Failed to fetch transcript for video '' @ apostrophe @ ''missing''
                       @ apostrophe @ '': no transcript found'')) \<and>
   \<not> is_ToolError (Exception (''Failed to fetch transcript for video '' @ apostrophe
                       @ ''missing'' @ apostrophe @ '': no transcript found'')) \<and>
   \<not> sublist ''YouTubeTranscriptTool''
        (''Failed to fetch transcript for video '' @ apostrophe @ ''missing''
           @ apostrophe @ '': no transcript found'') \<and>
   get_transcript example_world ''gone'' None =
     Inl (ExternalError ''VideoUnavailable'' ''video unavailable'') \<and>
   fst (run example_world (watch ''gone'') example_sys) =
     Inl (ExternalError ''VideoUnavailable'' ''video unavailable'') \<and>
   calls (snd (run example_world (watch ''gone'') example_sys)) = [GetTranscript ''gone'' None]"
proof -
  have "\<not> sublist ''YouTubeTranscriptTool''
        (''Failed to fetch transcript for video '' @ apostrophe @ ''missing''
           @ apostrophe @ '': no transcript found'')"
    by (simp add: apostrophe_def sublist_Cons_right)
  then show ?thesis
    by (simp add: run_cases Let_def watch_def video_id_examples requested_languages_def
        example_world_def example_sys_def)
qed

text \<open>
  C6: two tools constructed from equal configurations have equal \<open>api_key\<close>, and \<open>run\<close>
  gives the same result and makes the same external calls on equal inputs, whatever the
  environment was at construction and whatever the base class stored: the construction
  reads only the configuration object.
\<close>

theorem run_depends_on_config_only:
  "api_key (init super1 environ1 cfg) = api_key (init super2 environ2 cfg) \<and>
   fst (run w params \<lparr>self = init super1 environ1 cfg, calls = cs\<rparr>) =
   fst (run w params \<lparr>self = init super2 environ2 cfg, calls = cs\<rparr>) \<and>
   calls (snd (run w params \<lparr>self = init super1 environ1 cfg, calls = cs\<rparr>)) =
   calls (snd (run w params \<lparr>self = init super2 environ2 cfg, calls = cs\<rparr>))"
proof -
  have k: "api_key (self \<lparr>self = init super1 environ1 cfg, calls = cs\<rparr>) =
           api_key (self \<lparr>self = init super2 environ2 cfg, calls = cs\<rparr>)"
    by (simp add: init_def)
  show ?thesis
    unfolding run_result_cases run_calls_cases k by (simp add: init_def)
qed

theorem run_depends_on_config_only_witness:
  "api_key (init (\<lambda>environ config. environ ''HOME'') (\<lambda>name. Some ''x'')
             \<lparr>config_api_key = Some ''KEY''\<rparr>) = Some ''KEY'' \<and>
   fst (run example_world example_params
          \<lparr>self = init (\<lambda>environ config. environ ''HOME'') (\<lambda>name. Some ''x'')
                    \<lparr>config_api_key = Some ''KEY''\<rparr>, calls = []\<rparr>) =
   fst (run example_world example_params example_sys)"
  using run_depends_on_config_only [of "\<lambda>environ config. environ ''HOME''" "\<lambda>name. Some ''x''"
      "\<lparr>config_api_key = Some ''KEY''\<rparr>" "\<lambda>environ config. ()" "\<lambda>name. None" example_world
      example_params "[]"]
  by (simp add: example_sys_def init_def)

text \<open>
  C7: a call of \<open>run\<close>, whether it returns or fails, leaves the tool object unchanged, in
  particular its \<open>api_key\<close>; so does any sequence of calls, each of which therefore sees the
  same configuration.
\<close>

theorem run_preserves_tool:
  "self (snd (run w params s)) = self s \<and>
   api_key (self (snd (run w params s))) = api_key (self s) \<and>
   self (snd (run_all w ps s)) = self s"
  by (simp add: run_self run_all_self)

theorem run_preserves_tool_witness:
  "self (snd (run example_world (watch ''missing'') example_sys)) = self example_sys \<and>
   api_key (self (snd (run_all example_world [example_params, watch ''gone''] example_sys))) =
     Some ''KEY''"
  using run_preserves_tool [of example_world "watch ''missing''" example_sys
      "[example_params, watch ''gone'']"]
  by (simp add: example_sys_def init_def)

text \<open>
  C8: one call of \<open>run\<close> adds to the log of external calls at most one transcript fetch and
  at most one metadata request, and after a failed transcript fetch nothing but that one
  fetch: no external call is attempted a second time.
\<close>

theorem run_calls_at_most_once:
  "\<exists>new. calls (snd (run w params s)) = calls s @ new \<and>
         length (filter is_transcript_call new) \<le> 1 \<and>
         length (filter is_metadata_call new) \<le> 1 \<and>
         (isl (get_transcript w (video_id_reference (video_url params))
                 (requested_languages params)) \<longrightarrow>
            new = [GetTranscript (video_id_reference (video_url params))
                     (requested_languages params)])"
  by (simp add: run_calls_cases Let_def split: sum.split)

theorem run_calls_at_most_once_witness:
  "isl (get_transcript example_world ''missing'' None) \<and>
   calls (snd (run example_world (watch ''missing'') example_sys)) =
     [GetTranscript ''missing'' None]"
proof -
  have a: "isl (get_transcript example_world ''missing'' None)"
    by (simp add: example_world_def)
  from run_calls_at_most_once [of example_world "watch ''missing''" example_sys] a
  show ?thesis
    by (auto simp: watch_def video_id_examples requested_languages_def example_sys_def)
qed

text \<open>
  C10: whenever \<open>run\<close> returns, the transcript fetch returned segments and the metadata
  lookup returned items, and the output is the reference: \<open>transcript\<close> is the segments'
  texts in order joined by single spaces, \<open>duration\<close> the sum of their durations (added
  from the left, as \<open>sum\<close> does), \<open>comments\<close> the empty list, and \<open>metadata\<close> a mapping
  with exactly the keys \<open>id\<close>, \<open>title\<close>, \<open>channel\<close>, \<open>published_at\<close>, whose \<open>id\<close> is the
  extracted video id.
\<close>

theorem run_output_reference:
  assumes "fst (run w params s) = Inr out"
  shows "\<exists>segs item rest r.
           get_transcript w (video_id_reference (video_url params)) (requested_languages params)
             = Inr segs \<and>
           videos_list w (api_key (self s)) ''snippet'' (video_id_reference (video_url params))
             = Inr r \<and>
           items r = item # rest \<and>
           extract_video_id (video_url params) = Inr (video_id_reference (video_url params)) \<and>
           out = reference_output (video_id_reference (video_url params)) segs
                   (video_snippet item) \<and>
           map_of out ''transcript'' = Some (PStr (str_join '' '' (map seg_text segs))) \<and>
           map_of out ''duration'' = Some (PNum (py_sum (map seg_duration segs))) \<and>
           map_of out ''comments'' = Some (PList []) \<and>
           (\<exists>m. map_of out ''metadata'' = Some (PDict m) \<and>
                map fst m = [''id'', ''title'', ''channel'', ''published_at''] \<and>
                map_of m ''id'' = Some (PStr (video_id_reference (video_url params))))"
proof -
  from run_returns_reference [OF assms] obtain segs item rest r where
    h: "get_transcript w (video_id_reference (video_url params)) (requested_languages params)
          = Inr segs"
       "videos_list w (api_key (self s)) ''snippet'' (video_id_reference (video_url params))
          = Inr r"
       "items r = item # rest"
       "out = reference_output (video_id_reference (video_url params)) segs (video_snippet item)"
    by blast
  have fields:
    "map_of out ''transcript'' = Some (PStr (str_join '' '' (map seg_text segs)))"
    "map_of out ''duration'' = Some (PNum (py_sum (map seg_duration segs)))"
    "map_of out ''comments'' = Some (PList [])"
    "\<exists>m. map_of out ''metadata'' = Some (PDict m) \<and>
         map fst m = [''id'', ''title'', ''channel'', ''published_at''] \<and>
         map_of m ''id'' = Some (PStr (video_id_reference (video_url params)))"
    by (simp_all add: h(4) reference_output_def str_join_space)
  have "get_transcript w (video_id_reference (video_url params)) (requested_languages params)
          = Inr segs \<and>
        videos_list w (api_key (self s)) ''snippet'' (video_id_reference (video_url params))
          = Inr r \<and>
        items r = item # rest \<and>
        extract_video_id (video_url params) = Inr (video_id_reference (video_url params)) \<and>
        out = reference_output (video_id_reference (video_url params)) segs
                (video_snippet item) \<and>
        map_of out ''transcript'' = Some (PStr (str_join '' '' (map seg_text segs))) \<and>
        map_of out ''duration'' = Some (PNum (py_sum (map seg_duration segs))) \<and>
        map_of out ''comments'' = Some (PList []) \<and>
        (\<exists>m. map_of out ''metadata'' = Some (PDict m) \<and>
             map fst m = [''id'', ''title'', ''channel'', ''published_at''] \<and>
             map_of m ''id'' = Some (PStr (video_id_reference (video_url params))))"
    using h fields extract_video_id_eq [of "video_url params"] by (intro conjI)
  then show ?thesis by (intro exI)
qed

theorem run_output_reference_witness:
  "fst (run example_world example_params example_sys) =
     Inr [(''transcript'', PStr ''hello world''), (''duration'', PNum 3.5),
          (''comments'', PList []),
          (''metadata'', PDict [(''id'', PStr ''t1e8gqXLbsU''), (''title'', PStr ''Talk''),
                                (''channel'', PStr ''Channel''),
                                (''published_at'', PStr ''2024-01-01'')])] \<and>
   map_of (projr (fst (run example_world example_params example_sys))) ''transcript'' =
     Some (PStr ''hello world'')"
proof -
  have r: "fst (run example_world example_params example_sys) =
     Inr [(''transcript'', PStr ''hello world''), (''duration'', PNum 3.5),
          (''comments'', PList []),
          (''metadata'', PDict [(''id'', PStr ''t1e8gqXLbsU''), (''title'', PStr ''Talk''),
                                (''channel'', PStr ''Channel''),
                                (''published_at'', PStr ''2024-01-01'')])]"
    by (simp add: run_example)
  from run_output_reference [OF r] have
    "map_of [(''transcript'', PStr ''hello world''), (''duration'', PNum (3.5::real)),
          (''comments'', PList []),
          (''metadata'', PDict [(''id'', PStr ''t1e8gqXLbsU''), (''title'', PStr ''Talk''),
                                (''channel'', PStr ''Channel''),
                                (''published_at'', PStr ''2024-01-01'')])] ''transcript'' =
       Some (PStr ''hello world'')"
    by simp
  with r show ?thesis by simp
qed

section \<open>Properties of schema construction\<close>

lemma validate_failure:
  assumes "validate sch raw = Inl e"
  shows "\<exists>findings. e = SchemaValidationError (sname sch) findings \<and> findings \<noteq> [] \<and>
           findings = check_fields (sfields sch) raw []"
  using assms by (auto simp: validate_def split: list.splits)

lemma validate_success:
  assumes "validate sch raw = Inr inst"
  shows "inst = instance_of (sfields sch) raw \<and> check_fields (sfields sch) raw [] = []"
  using assms by (auto simp: validate_def split: list.splits)

lemma check_valid:
  "(check t v p = []) = type_valid t (v :: 'n pyval)"
  "(check_items t xs i p = []) = items_valid t (xs :: 'n pyval list)"
  "(check_fields fs kvs p = []) = fields_valid fs (kvs :: 'n fields)"
  by (induction t v p and t xs i p and fs kvs p rule: check_check_items_check_fields.induct)
     (simp_all split: option.split)

lemma check_paths:
  "\<forall>e \<in> set (check t (v :: 'n pyval) p). prefix p (verr_path e)"
  "\<forall>e \<in> set (check_items t (xs :: 'n pyval list) i p). prefix p (verr_path e)"
  "\<forall>e \<in> set (check_fields fs (kvs :: 'n fields) p). prefix p (verr_path e)"
  by (induction t v p and t xs i p and fs kvs p rule: check_check_items_check_fields.induct)
     (auto split: option.splits dest: append_prefixD)


lemma fields_valid_all:
  "fields_valid fs raw =
     list_all (\<lambda>f. present_valid f raw \<or> (\<not> required f \<and> omitted f raw)) fs"
  by (induction fs) (auto simp: present_valid_def omitted_def split: option.splits)

lemma field_findings_included:
  "f \<in> set fs \<Longrightarrow> set (field_findings f raw p) \<subseteq> set (check_fields fs raw p)"
proof (induction fs)
  case Nil
  then show ?case by simp
next
  case (Cons g fs)
  have unfold: "check_fields (g # fs) raw p = field_findings g raw p @ check_fields fs raw p"
    by (simp add: field_findings_def)
  from Cons show ?case unfolding unfold by auto
qed

lemma invalid_field_named:
  assumes "f \<in> set fs" and "\<not> present_valid f raw" and "required f \<or> \<not> omitted f raw"
  shows "\<exists>e \<in> set (check_fields fs raw []). \<exists>rest. verr_path e = Key (fname f) # rest"
proof (cases "map_of raw (fname f)")
  case None
  with assms(3) have "required f" by (simp add: omitted_def)
  with None have "Missing [Key (fname f)] \<in> set (field_findings f raw [])"
    by (simp add: field_findings_def)
  with field_findings_included [OF assms(1)]
  have "Missing [Key (fname f)] \<in> set (check_fields fs raw [])" by blast
  then show ?thesis by force
next
  case (Some v)
  with assms(2) have "\<not> type_valid (ftype f) v" by (simp add: present_valid_def)
  then have "check (ftype f) v [Key (fname f)] \<noteq> []" by (simp add: check_valid)
  then obtain e where e: "e \<in> set (check (ftype f) v [Key (fname f)])"
    by (cases "check (ftype f) v [Key (fname f)]") auto
  with check_paths(1) [of "ftype f" v "[Key (fname f)]"]
  have "prefix [Key (fname f)] (verr_path e)" by blast
  then obtain rest where "verr_path e = Key (fname f) # rest"
    by (auto elim!: prefixE)
  moreover have "e \<in> set (field_findings f raw [])"
    using e Some by (simp add: field_findings_def)
  with field_findings_included [OF assms(1)]
  have "e \<in> set (check_fields fs raw [])" by blast
  ultimately show ?thesis by blast
qed

lemma validate_invalid_field:
  assumes "f \<in> set (sfields sch)" and "\<not> present_valid f raw"
    and "required f \<or> \<not> omitted f raw"
  shows "\<exists>findings.
           validate sch raw = Inl (SchemaValidationError (sname sch) findings) \<and>
           names_field (SchemaValidationError (sname sch) findings) (fname f)"
proof -
  from invalid_field_named [OF assms] obtain e rest where
    e: "e \<in> set (check_fields (sfields sch) raw [])" "verr_path e = Key (fname f) # rest"
    by blast
  then have ne: "check_fields (sfields sch) raw [] \<noteq> []" by auto
  have "validate sch raw =
          Inl (SchemaValidationError (sname sch) (check_fields (sfields sch) raw []))"
    using ne by (simp add: validate_def split: list.split)
  moreover have "names_field
      (SchemaValidationError (sname sch) (check_fields (sfields sch) raw [])) (fname f)"
    unfolding names_field_def list_ex_iff using e by (auto intro!: bexI [of _ e])
  ultimately show ?thesis by blast
qed

lemma validate_all_valid:
  assumes "list_all (\<lambda>f. present_valid f raw \<or> (\<not> required f \<and> omitted f raw)) (sfields sch)"
  shows "validate sch raw = Inr (instance_of (sfields sch) raw)"
proof -
  from assms have "fields_valid (sfields sch) raw" by (simp add: fields_valid_all)
  then have "check_fields (sfields sch) raw [] = []" by (simp add: check_valid)
  then show ?thesis by (simp add: validate_def)
qed

lemma input_schema_findings:
  "check_fields (sfields YouTubeTranscriptToolInputSchema) raw [] =
     (case map_of raw ''video_url'' of
        None \<Rightarrow> [Missing [Key ''video_url'']]
      | Some v \<Rightarrow> check TString v [Key ''video_url''])
     @ (case map_of raw ''language'' of
          None \<Rightarrow> []
        | Some v \<Rightarrow> check (TOptional TString) v [Key ''language''])"
  by (simp add: YouTubeTranscriptToolInputSchema_def split: option.split)

lemma check_video_url:
  "(case map_of raw ''video_url'' of
      None \<Rightarrow> [Missing [Key ''video_url'']]
    | Some v \<Rightarrow> check TString v [Key ''video_url'']) =
   (if video_url_valid raw then []
    else case map_of raw ''video_url'' of
           None \<Rightarrow> [Missing [Key ''video_url'']]
         | Some v \<Rightarrow> [Mismatch [Key ''video_url''] ''string'' (kind_of v)])"
  by (simp add: video_url_valid_def split: option.split pyval.split)

lemma check_language:
  "(case map_of raw ''language'' of
      None \<Rightarrow> []
    | Some v \<Rightarrow> check (TOptional TString) v [Key ''language'']) =
   (if language_valid raw then []
    else case map_of raw ''language'' of
           None \<Rightarrow> []
         | Some v \<Rightarrow> [Mismatch [Key ''language''] ''string'' (kind_of v)])"
  by (simp add: language_valid_def split: option.split pyval.split)

lemma input_schema_cases:
  "(\<not> video_url_valid raw \<longrightarrow>
      (\<exists>findings.
         validate YouTubeTranscriptToolInputSchema raw =
           Inl (SchemaValidationError ''YouTubeTranscriptToolInputSchema'' findings) \<and>
         names_field (SchemaValidationError ''YouTubeTranscriptToolInputSchema'' findings)
           ''video_url'')) \<and>
   (\<not> language_valid raw \<longrightarrow>
      (\<exists>findings.
         validate YouTubeTranscriptToolInputSchema raw =
           Inl (SchemaValidationError ''YouTubeTranscriptToolInputSchema'' findings) \<and>
         names_field (SchemaValidationError ''YouTubeTranscriptToolInputSchema'' findings)
           ''language'')) \<and>
   (video_url_valid raw \<and> language_valid raw \<longrightarrow>
      (\<exists>u. map_of raw ''video_url'' = Some (PStr u) \<and>
           validate YouTubeTranscriptToolInputSchema raw =
             Inr [(''video_url'', PStr u),
                  (''language'',
                     case map_of raw ''language'' of None \<Rightarrow> PNone | Some v \<Rightarrow> v)]))"
proof -
  have name: "sname YouTubeTranscriptToolInputSchema = ''YouTubeTranscriptToolInputSchema''"
    by (simp add: YouTubeTranscriptToolInputSchema_def)
  have inst: "instance_of (sfields YouTubeTranscriptToolInputSchema) raw =
        [(''video_url'', PStr u),
         (''language'', case map_of raw ''language'' of None \<Rightarrow> PNone | Some v \<Rightarrow> v)]"
    if "map_of raw ''video_url'' = Some (PStr u)" for u
    using that by (simp add: instance_of_def YouTubeTranscriptToolInputSchema_def)
  show ?thesis
    unfolding validate_def input_schema_findings check_video_url check_language name
    by (auto simp: inst names_field_def video_url_valid_def language_valid_def
        split: option.splits pyval.splits)
qed

text \<open>
  C5, as the validation has it. For every schema and every raw input: when a declared
  required field is missing or type-invalid, construction fails with a
  \<open>SchemaValidationError\<close> naming that field; when a declared field is supplied with a
  type-invalid value, required or not, construction fails likewise, naming it; and when every
  required field is present and type-valid and every other declared field is omitted or
  type-valid, construction succeeds and gives the schema-mapped instance. For
  \<open>YouTubeTranscriptToolInputSchema\<close> this reads: it fails naming \<open>video_url\<close> when that is
  missing or not a string, fails naming \<open>language\<close> when a language is supplied that is
  neither \<open>None\<close> nor a string, and succeeds otherwise, \<open>language\<close> being \<open>None\<close> when omitted.
\<close>

theorem schema_construction:
  "(f \<in> set (sfields sch) \<and> required f \<and> \<not> present_valid f raw \<longrightarrow>
      (\<exists>findings.
         validate sch raw = Inl (SchemaValidationError (sname sch) findings) \<and>
         names_field (SchemaValidationError (sname sch) findings) (fname f))) \<and>
   (f \<in> set (sfields sch) \<and> \<not> omitted f raw \<and> \<not> present_valid f raw \<longrightarrow>
      (\<exists>findings.
         validate sch raw = Inl (SchemaValidationError (sname sch) findings) \<and>
         names_field (SchemaValidationError (sname sch) findings) (fname f))) \<and>
   (list_all (\<lambda>f. present_valid f raw \<or> (\<not> required f \<and> omitted f raw)) (sfields sch) \<longrightarrow>
      validate sch raw = Inr (instance_of (sfields sch) raw)) \<and>
   (\<not> video_url_valid raw \<longrightarrow>
      (\<exists>findings.
         validate YouTubeTranscriptToolInputSchema raw =
           Inl (SchemaValidationError ''YouTubeTranscriptToolInputSchema'' findings) \<and>
         names_field (SchemaValidationError ''YouTubeTranscriptToolInputSchema'' findings)
           ''video_url'')) \<and>
   (\<not> language_valid raw \<longrightarrow>
      (\<exists>findings.
         validate YouTubeTranscriptToolInputSchema raw =
           Inl (SchemaValidationError ''YouTubeTranscriptToolInputSchema'' findings) \<and>
         names_field (SchemaValidationError ''YouTubeTranscriptToolInputSchema'' findings)
           ''language'')) \<and>
   (video_url_valid raw \<and> language_valid raw \<longrightarrow>
      (\<exists>u. map_of raw ''video_url'' = Some (PStr u) \<and>
           validate YouTubeTranscriptToolInputSchema raw =
             Inr [(''video_url'', PStr u),
                  (''language'',
                     case map_of raw ''language'' of None \<Rightarrow> PNone | Some v \<Rightarrow> v)]))"
proof (intro conjI impI)
  assume "f \<in> set (sfields sch) \<and> required f \<and> \<not> present_valid f raw"
  then show "\<exists>findings.
         validate sch raw = Inl (SchemaValidationError (sname sch) findings) \<and>
         names_field (SchemaValidationError (sname sch) findings) (fname f)"
    by (intro validate_invalid_field) simp_all
next
  assume "f \<in> set (sfields sch) \<and> \<not> omitted f raw \<and> \<not> present_valid f raw"
  then show "\<exists>findings.
         validate sch raw = Inl (SchemaValidationError (sname sch) findings) \<and>
         names_field (SchemaValidationError (sname sch) findings) (fname f)"
    by (intro validate_invalid_field) simp_all
next
  assume "list_all (\<lambda>f. present_valid f raw \<or> (\<not> required f \<and> omitted f raw)) (sfields sch)"
  then show "validate sch raw = Inr (instance_of (sfields sch) raw)"
    by (rule validate_all_valid)
next
  assume "\<not> video_url_valid raw"
  then show "\<exists>findings.
         validate YouTubeTranscriptToolInputSchema raw =
           Inl (SchemaValidationError ''YouTubeTranscriptToolInputSchema'' findings) \<and>
         names_field (SchemaValidationError ''YouTubeTranscriptToolInputSchema'' findings)
           ''video_url''"
    using input_schema_cases [of raw] by simp
next
  assume "\<not> language_valid raw"
  then show "\<exists>findings.
         validate YouTubeTranscriptToolInputSchema raw =
           Inl (SchemaValidationError ''YouTubeTranscriptToolInputSchema'' findings) \<and>
         names_field (SchemaValidationError ''YouTubeTranscriptToolInputSchema'' findings)
           ''language''"
    using input_schema_cases [of raw] by simp
next
  assume "video_url_valid raw \<and> language_valid raw"
  then show "\<exists>u. map_of raw ''video_url'' = Some (PStr u) \<and>
           validate YouTubeTranscriptToolInputSchema raw =
             Inr [(''video_url'', PStr u),
                  (''language'',
                     case map_of raw ''language'' of None \<Rightarrow> PNone | Some v \<Rightarrow> v)]"
    using input_schema_cases [of raw] by simp
qed

theorem schema_construction_witness:
  "hd (sfields YouTubeTranscriptToolInputSchema) \<in> set (sfields YouTubeTranscriptToolInputSchema) \<and>
   required (hd (sfields YouTubeTranscriptToolInputSchema)) \<and>
   fname (hd (sfields YouTubeTranscriptToolInputSchema)) = ''video_url'' \<and>
   \<not> present_valid (hd (sfields YouTubeTranscriptToolInputSchema))
       [(''language'', PStr ''en'' :: real pyval)] \<and>
   (\<exists>findings.
      validate YouTubeTranscriptToolInputSchema [(''language'', PStr ''en'' :: real pyval)] =
        Inl (SchemaValidationError ''YouTubeTranscriptToolInputSchema'' findings) \<and>
      names_field (SchemaValidationError ''YouTubeTranscriptToolInputSchema'' findings)
        ''video_url'') \<and>
   list_all (\<lambda>f. present_valid f [(''video_url'', PStr ''https://youtu.be/x'' :: real pyval)] \<or>
                 (\<not> required f \<and>
                  omitted f [(''video_url'', PStr ''https://youtu.be/x'' :: real pyval)]))
     (sfields YouTubeTranscriptToolInputSchema) \<and>
   validate YouTubeTranscriptToolInputSchema
     [(''video_url'', PStr ''https://youtu.be/x'' :: real pyval)] =
     Inr [(''video_url'', PStr ''https://youtu.be/x''), (''language'', PNone)]"
proof -
  let ?f = "hd (sfields YouTubeTranscriptToolInputSchema)"
  let ?bad = "[(''language'', PStr ''en'' :: real pyval)]"
  let ?good = "[(''video_url'', PStr ''https://youtu.be/x'' :: real pyval)]"
  have a: "?f \<in> set (sfields YouTubeTranscriptToolInputSchema)" "required ?f"
    "fname ?f = ''video_url''" "\<not> present_valid ?f ?bad"
    by (simp_all add: YouTubeTranscriptToolInputSchema_def present_valid_def)
  have n: "sname YouTubeTranscriptToolInputSchema = ''YouTubeTranscriptToolInputSchema''"
    by (simp add: YouTubeTranscriptToolInputSchema_def)
  have b: "list_all (\<lambda>f. present_valid f ?good \<or> (\<not> required f \<and> omitted f ?good))
             (sfields YouTubeTranscriptToolInputSchema)"
    by (simp add: YouTubeTranscriptToolInputSchema_def present_valid_def omitted_def)
  have i: "instance_of (sfields YouTubeTranscriptToolInputSchema) ?good =
             [(''video_url'', PStr ''https://youtu.be/x''), (''language'', PNone)]"
    by (simp add: YouTubeTranscriptToolInputSchema_def instance_of_def)
  from schema_construction [of ?f YouTubeTranscriptToolInputSchema ?bad] a
  have 1: "\<exists>findings.
      validate YouTubeTranscriptToolInputSchema ?bad =
        Inl (SchemaValidationError ''YouTubeTranscriptToolInputSchema'' findings) \<and>
      names_field (SchemaValidationError ''YouTubeTranscriptToolInputSchema'' findings)
        ''video_url''"
    unfolding n by simp
  from schema_construction [of ?f YouTubeTranscriptToolInputSchema ?good] b
  have 2: "validate YouTubeTranscriptToolInputSchema ?good =
             Inr [(''video_url'', PStr ''https://youtu.be/x''), (''language'', PNone)]"
    unfolding i by simp
  show ?thesis
    by (intro conjI a b 1 2)
qed

text \<open>
  C5 as stated fails: with \<open>video_url\<close> present and a string, a \<open>language\<close> that is a number
  makes the construction fail, although every required field is present and type-valid.
\<close>

theorem input_schema_construction_counterexample:
  "video_url_valid [(''video_url'', PStr ''https://youtu.be/x''), (''language'', PNum (5::real))] \<and>
   validate YouTubeTranscriptToolInputSchema
     [(''video_url'', PStr ''https://youtu.be/x''), (''language'', PNum (5::real))] =
     Inl (SchemaValidationError ''YouTubeTranscriptToolInputSchema''
            [Mismatch [Key ''language''] ''string'' ''number''])"
  by (simp add: video_url_valid_def validate_def YouTubeTranscriptToolInputSchema_def)

section \<open>Properties of the agent execution loop\<close>

lemma parse_final_cases:
  "parse_final cfg raw =
     (case validate (output_schema cfg) raw of
        Inl e \<Rightarrow> Inl (ModelOutputValidationError (check_fields (sfields (output_schema cfg)) raw []))
      | Inr out \<Rightarrow> Inr out)"
proof (cases "validate (output_schema cfg) raw")
  case (Inl e)
  with validate_failure [OF Inl] show ?thesis by (auto simp: parse_final_def)
next
  case (Inr out)
  then show ?thesis by (simp add: parse_final_def)
qed

lemma tool_requested_no_tool: "tool cfg = None \<Longrightarrow> tool_requested cfg raw = None"
  by (simp add: tool_requested_def)

lemma parse_follow_up_failure:
  assumes "parse_follow_up cfg raw = Inl e"
  shows "tool_requested cfg raw = None \<and> parse_final cfg raw = Inl e"
  using assms by (auto simp: parse_follow_up_def split: option.splits)

lemma agent_run_plain:
  assumes "validate (input_schema (config a)) input = Inr inp"
    and "client (config a)
           (build_request (config a) (memory a @ [\<lparr>role = User, payload = inp\<rparr>])) = Inr raw"
    and "tool_requested (config a) raw = None"
  shows "agent_run a input =
     (case parse_final (config a) raw of
        Inl e \<Rightarrow> (Inl e, a\<lparr>memory := memory a @ [\<lparr>role = User, payload = inp\<rparr>]\<rparr>)
      | Inr out \<Rightarrow>
          (Inr out,
           a\<lparr>memory := memory a @
                [\<lparr>role = User, payload = inp\<rparr>, \<lparr>role = Assistant, payload = out\<rparr>]\<rparr>))"
  using assms by (simp add: agent_run_def Let_def split: sum.split)

lemma agent_run_config: "config (snd (agent_run a input)) = config a"
  by (simp add: agent_run_def Let_def split: sum.split option.split prod.split)

lemma agent_run_failure_memory:
  assumes "validate (input_schema (config a)) input = Inr inp"
    and "fst (agent_run a input) = Inl e"
  shows "snd (agent_run a input) = a\<lparr>memory := memory a @ [\<lparr>role = User, payload = inp\<rparr>]\<rparr>"
  using assms by (auto simp: agent_run_def Let_def split: sum.splits option.splits prod.splits)

lemma agent_run_all_stub:
  assumes "client (config a) = (\<lambda>request. Inr stub_payload)"
    and "validate (output_schema (config a)) stub_payload = Inr out"
    and "tool_requested (config a) stub_payload = None"
    and "list_all (\<lambda>input. \<exists>inp. validate (input_schema (config a)) input = Inr inp) inputs"
  shows "fst (agent_run_all a inputs) = map (\<lambda>input. Inr out) inputs \<and>
         length (memory (snd (agent_run_all a inputs))) = length (memory a) + 2 * length inputs"
  using assms
proof (induction inputs arbitrary: a)
  case Nil
  show ?case by simp
next
  case (Cons input inputs)
  from Cons.prems(4) obtain inp where inp: "validate (input_schema (config a)) input = Inr inp"
    by auto
  let ?a' = "a\<lparr>memory := memory a @
                [\<lparr>role = User, payload = inp\<rparr>, \<lparr>role = Assistant, payload = out\<rparr>]\<rparr>"
  have step: "agent_run a input = (Inr out, ?a')"
    using agent_run_plain [OF inp, of stub_payload] Cons.prems(1,2,3)
    by (simp add: parse_final_cases)
  have "fst (agent_run_all ?a' inputs) = map (\<lambda>input. Inr out) inputs \<and>
        length (memory (snd (agent_run_all ?a' inputs))) = length (memory ?a') + 2 * length inputs"
    using Cons.prems by (intro Cons.IH) simp_all
  then show ?case
    by (cases "agent_run_all ?a' inputs") (simp add: step)
qed

text \<open>
  C3, as the loop has it: given a backend stub that always returns one payload conforming to
  the agent's output schema, a call of \<open>run\<close> on a valid input, in a turn that dispatches no
  tool (no tool is bound, or the payload does not conform to the tool-invocation variant),
  returns the validated output, which is the payload's schema-mapped fields, and appends to
  memory exactly a user message followed by an assistant message; the same holds for every
  call of a sequence, so that memory grows by two entries per call.
\<close>

theorem agent_run_stub:
  assumes "client (config a) = (\<lambda>request. Inr stub_payload)"
    and "validate (output_schema (config a)) stub_payload = Inr out"
    and "tool_requested (config a) stub_payload = None"
    and "validate (input_schema (config a)) input = Inr inp"
    and "list_all (\<lambda>input. \<exists>inp. validate (input_schema (config a)) input = Inr inp) inputs"
  shows "agent_run a input =
           (Inr out,
            a\<lparr>memory := memory a @
                 [\<lparr>role = User, payload = inp\<rparr>, \<lparr>role = Assistant, payload = out\<rparr>]\<rparr>) \<and>
         out = instance_of (sfields (output_schema (config a))) stub_payload \<and>
         length (memory (snd (agent_run a input))) = length (memory a) + 2 \<and>
         fst (agent_run_all a inputs) = map (\<lambda>input. Inr out) inputs \<and>
         length (memory (snd (agent_run_all a inputs))) = length (memory a) + 2 * length inputs"
proof -
  have step: "agent_run a input =
           (Inr out,
            a\<lparr>memory := memory a @
                 [\<lparr>role = User, payload = inp\<rparr>, \<lparr>role = Assistant, payload = out\<rparr>]\<rparr>)"
    using agent_run_plain [OF assms(4), of stub_payload] assms(1,2,3)
    by (simp add: parse_final_cases)
  have mapped: "out = instance_of (sfields (output_schema (config a))) stub_payload"
    using validate_success [OF assms(2)] by simp
  show ?thesis
    using step mapped agent_run_all_stub [OF assms(1,2,3,5)] by simp
qed

theorem agent_run_stub_witness:
  "agent_run (answer_agent [(''markdown_output'', PStr ''42'')] [])
     [(''question'', PStr ''why'')] =
     (Inr [(''markdown_output'', PStr ''42'')],
      (answer_agent [(''markdown_output'', PStr ''42'')] [])
        \<lparr>memory := [\<lparr>role = User, payload = [(''question'', PStr ''why'')]\<rparr>,
                    \<lparr>role = Assistant, payload = [(''markdown_output'', PStr ''42'')]\<rparr>]\<rparr>) \<and>
   length (memory (snd (agent_run_all (answer_agent [(''markdown_output'', PStr ''42'')] [])
                          [[(''question'', PStr ''why'')], [(''question'', PStr ''how'')]]))) = 4"
proof -
  let ?a = "answer_agent [(''markdown_output'', PStr ''42'')] []"
  have 1: "client (config ?a) = (\<lambda>request. Inr [(''markdown_output'', PStr ''42'')])"
    by (simp add: answer_agent_def)
  have 2: "validate (output_schema (config ?a)) [(''markdown_output'', PStr ''42'')] =
             Inr [(''markdown_output'', PStr ''42'')]"
    by (simp add: answer_agent_def AnswerAgentOutputSchema_def validate_def instance_of_def)
  have 3: "tool_requested (config ?a) [(''markdown_output'', PStr ''42'')] = None"
    by (simp add: answer_agent_def tool_requested_def)
  have 4: "validate (input_schema (config ?a)) [(''question'', PStr ''why'')] =
             Inr [(''question'', PStr ''why'')]"
    by (simp add: answer_agent_def AnswerAgentInputSchema_def validate_def instance_of_def)
  have 5: "list_all (\<lambda>input. \<exists>inp. validate (input_schema (config ?a)) input = Inr inp)
             [[(''question'', PStr ''why'')], [(''question'', PStr ''how'')]]"
    by (simp add: answer_agent_def AnswerAgentInputSchema_def validate_def instance_of_def)
  have m: "memory ?a = []"
    by (simp add: answer_agent_def)
  from agent_run_stub [OF 1 2 3 4 5] have
    "agent_run ?a [(''question'', PStr ''why'')] =
       (Inr [(''markdown_output'', PStr ''42'')],
        ?a\<lparr>memory := memory ?a @
              [\<lparr>role = User, payload = [(''question'', PStr ''why'')]\<rparr>,
               \<lparr>role = Assistant, payload = [(''markdown_output'', PStr ''42'')]\<rparr>]\<rparr>)"
    and "length (memory (snd (agent_run_all ?a
           [[(''question'', PStr ''why'')], [(''question'', PStr ''how'')]]))) =
         length (memory ?a) + 2 * length [[(''question'', PStr ''why'' :: real pyval)],
                                          [(''question'', PStr ''how'')]]"
    by blast+
  then show ?thesis
    unfolding m by simp
qed

text \<open>
  The turn with a tool call, for comparison: when the first response asks for the bound tool
  and the follow-up response is a final answer, memory receives the user message, the tool
  result and the assistant message, in this order.
\<close>

lemma agent_run_tool_turn:
  assumes "validate (input_schema (config a)) input = Inr inp"
    and "client (config a)
           (build_request (config a) (memory a @ [\<lparr>role = User, payload = inp\<rparr>])) = Inr raw"
    and "tool_requested (config a) raw = Some (t, request)"
    and "tool_contract_run t request = Inr result"
    and "client (config a)
           (build_request (config a)
              (memory a @ [\<lparr>role = User, payload = inp\<rparr>, \<lparr>role = Tool, payload = result\<rparr>]))
           = Inr raw2"
  shows "agent_run a input =
     (case parse_follow_up (config a) raw2 of
        Inl e \<Rightarrow> (Inl e, a\<lparr>memory := memory a @ [\<lparr>role = User, payload = inp\<rparr>]\<rparr>)
      | Inr out \<Rightarrow>
          (Inr out,
           a\<lparr>memory := memory a @
                [\<lparr>role = User, payload = inp\<rparr>, \<lparr>role = Tool, payload = result\<rparr>,
                 \<lparr>role = Assistant, payload = out\<rparr>]\<rparr>))"
  using assms by (simp add: agent_run_def Let_def split: sum.split)

text \<open>
  C3 as stated fails for an agent with a bound tool: a stub payload that conforms to the
  output schema and also to the tool-invocation variant is taken as a request for the tool,
  so the call returns the request instead of the payload's output fields, and memory grows
  by three entries: user message, tool result, assistant message.
\<close>

theorem agent_run_stub_counterexample:
  "client (config (stubbed_search_agent
             [(''chat_message'', PStr ''hi''), (''query'', PStr ''cats'')] [])) =
     (\<lambda>request. Inr [(''chat_message'', PStr ''hi''), (''query'', PStr ''cats'')]) \<and>
   validate (output_schema (config (stubbed_search_agent
             [(''chat_message'', PStr ''hi''), (''query'', PStr ''cats'')] [])))
     [(''chat_message'', PStr ''hi''), (''query'', PStr ''cats'' :: real pyval)] =
     Inr [(''chat_message'', PStr ''hi'')] \<and>
   validate (input_schema (config (stubbed_search_agent
             [(''chat_message'', PStr ''hi''), (''query'', PStr ''cats'')] [])))
     [(''tool_input_SearxNGTool'', PStr ''cats'' :: real pyval)] =
     Inr [(''tool_input_SearxNGTool'', PStr ''cats'')] \<and>
   agent_run (stubbed_search_agent
                [(''chat_message'', PStr ''hi''), (''query'', PStr ''cats'')] [])
       [(''tool_input_SearxNGTool'', PStr ''cats'')] =
     (Inr [(''query'', PStr ''cats'')],
      (stubbed_search_agent [(''chat_message'', PStr ''hi''), (''query'', PStr ''cats'')] [])
        \<lparr>memory :=
           [\<lparr>role = User, payload = [(''tool_input_SearxNGTool'', PStr ''cats'')]\<rparr>,
            \<lparr>role = Tool, payload = [(''results'', PList [PStr ''first hit''])]\<rparr>,
            \<lparr>role = Assistant, payload = [(''query'', PStr ''cats'')]\<rparr>]\<rparr>)"
proof -
  let ?p = "[(''chat_message'', PStr ''hi''), (''query'', PStr ''cats'' :: real pyval)]"
  let ?a = "stubbed_search_agent ?p []"
  let ?user = "\<lparr>role = User, payload = [(''tool_input_SearxNGTool'', PStr ''cats'' :: real pyval)]\<rparr>"
  let ?result = "[(''results'', PList [PStr ''first hit'' :: real pyval])]"
  have c: "client (config ?a) = (\<lambda>request. Inr ?p)"
    by (simp add: stubbed_search_agent_def search_config_def)
  have o: "validate (output_schema (config ?a)) ?p = Inr [(''chat_message'', PStr ''hi'')]"
    by (simp add: stubbed_search_agent_def search_config_def validate_def instance_of_def)
  have i: "validate (input_schema (config ?a))
             [(''tool_input_SearxNGTool'', PStr ''cats'' :: real pyval)] =
             Inr [(''tool_input_SearxNGTool'', PStr ''cats'')]"
    by (simp add: stubbed_search_agent_def search_config_def validate_def instance_of_def)
  have t: "tool_requested (config ?a) ?p = Some (search_tool, [(''query'', PStr ''cats'')])"
    by (simp add: stubbed_search_agent_def search_config_def tool_requested_def search_tool_def
        validate_def instance_of_def)
  have r: "tool_contract_run search_tool [(''query'', PStr ''cats'')] = Inr ?result"
    by (simp add: tool_contract_run_def search_tool_def validate_def instance_of_def)
  have m: "memory ?a = []"
    by (simp add: stubbed_search_agent_def)
  have f: "parse_follow_up (config ?a) ?p = Inr [(''query'', PStr ''cats'')]"
    by (simp add: parse_follow_up_def t)
  have "agent_run ?a [(''tool_input_SearxNGTool'', PStr ''cats'')] =
     (Inr [(''query'', PStr ''cats'')],
      ?a\<lparr>memory := memory ?a @
           [?user, \<lparr>role = Tool, payload = ?result\<rparr>,
            \<lparr>role = Assistant, payload = [(''query'', PStr ''cats'')]\<rparr>]\<rparr>)"
    using agent_run_tool_turn [OF i, of ?p search_tool "[(''query'', PStr ''cats'')]" ?result ?p]
    by (simp add: c t r f)
  then have turn: "agent_run ?a [(''tool_input_SearxNGTool'', PStr ''cats'')] =
     (Inr [(''query'', PStr ''cats'')],
      ?a\<lparr>memory :=
           [?user, \<lparr>role = Tool, payload = ?result\<rparr>,
            \<lparr>role = Assistant, payload = [(''query'', PStr ''cats'')]\<rparr>]\<rparr>)"
    unfolding m by simp
  show ?thesis
    by (intro conjI c o i turn)
qed

text \<open>
  C4: on a valid input, when the backend returns a payload that fails validation against the
  output schema, in the first round-trip or in the follow-up after a tool call, \<open>run\<close> fails
  with \<open>ModelOutputValidationError\<close> and memory afterwards is the memory before the call
  followed by the user message only: no assistant entry and no tool entry of the failed
  turn. More generally every failed turn leaves exactly the user append.
\<close>

theorem agent_run_invalid_output:
  assumes "validate (input_schema (config a)) input = Inr inp"
  shows
    "(client (config a)
        (build_request (config a) (memory a @ [\<lparr>role = User, payload = inp\<rparr>])) = Inr raw \<and>
      tool_requested (config a) raw = None \<and>
      validate (output_schema (config a)) raw = Inl e \<longrightarrow>
        (\<exists>findings.
           agent_run a input =
             (Inl (ModelOutputValidationError findings),
              a\<lparr>memory := memory a @ [\<lparr>role = User, payload = inp\<rparr>]\<rparr>))) \<and>
     (client (config a)
        (build_request (config a) (memory a @ [\<lparr>role = User, payload = inp\<rparr>])) = Inr raw \<and>
      tool_requested (config a) raw = Some (t, request) \<and>
      tool_contract_run t request = Inr result \<and>
      client (config a)
        (build_request (config a)
           (memory a @ [\<lparr>role = User, payload = inp\<rparr>, \<lparr>role = Tool, payload = result\<rparr>]))
        = Inr raw2 \<and>
      tool_requested (config a) raw2 = None \<and>
      validate (output_schema (config a)) raw2 = Inl e \<longrightarrow>
        (\<exists>findings.
           agent_run a input =
             (Inl (ModelOutputValidationError findings),
              a\<lparr>memory := memory a @ [\<lparr>role = User, payload = inp\<rparr>]\<rparr>))) \<and>
     (\<forall>failure. fst (agent_run a input) = Inl failure \<longrightarrow>
        memory (snd (agent_run a input)) = memory a @ [\<lparr>role = User, payload = inp\<rparr>])"
proof (intro conjI impI allI)
  assume h: "client (config a)
        (build_request (config a) (memory a @ [\<lparr>role = User, payload = inp\<rparr>])) = Inr raw \<and>
      tool_requested (config a) raw = None \<and>
      validate (output_schema (config a)) raw = Inl e"
  then show "\<exists>findings.
           agent_run a input =
             (Inl (ModelOutputValidationError findings),
              a\<lparr>memory := memory a @ [\<lparr>role = User, payload = inp\<rparr>]\<rparr>)"
    using agent_run_plain [OF assms, of raw] by (simp add: parse_final_cases)
next
  assume h: "client (config a)
        (build_request (config a) (memory a @ [\<lparr>role = User, payload = inp\<rparr>])) = Inr raw \<and>
      tool_requested (config a) raw = Some (t, request) \<and>
      tool_contract_run t request = Inr result \<and>
      client (config a)
        (build_request (config a)
           (memory a @ [\<lparr>role = User, payload = inp\<rparr>, \<lparr>role = Tool, payload = result\<rparr>]))
        = Inr raw2 \<and>
      tool_requested (config a) raw2 = None \<and>
      validate (output_schema (config a)) raw2 = Inl e"
  then show "\<exists>findings.
           agent_run a input =
             (Inl (ModelOutputValidationError findings),
              a\<lparr>memory := memory a @ [\<lparr>role = User, payload = inp\<rparr>]\<rparr>)"
    using agent_run_tool_turn [OF assms, of raw t request result raw2]
    by (simp add: parse_follow_up_def parse_final_cases)
next
  fix failure
  assume "fst (agent_run a input) = Inl failure"
  from agent_run_failure_memory [OF assms this]
  show "memory (snd (agent_run a input)) = memory a @ [\<lparr>role = User, payload = inp\<rparr>]"
    by simp
qed

theorem agent_run_invalid_output_witness:
  "validate AnswerAgentOutputSchema [(''markdown_output'', PNum (1::real))] =
     Inl (SchemaValidationError ''AnswerAgentOutputSchema''
            [Mismatch [Key ''markdown_output''] ''string'' ''number'']) \<and>
   (\<exists>findings.
      agent_run (answer_agent [(''markdown_output'', PNum 1)] []) [(''question'', PStr ''why'')] =
        (Inl (ModelOutputValidationError findings),
         (answer_agent [(''markdown_output'', PNum 1)] [])
           \<lparr>memory := [\<lparr>role = User, payload = [(''question'', PStr ''why'')]\<rparr>]\<rparr>)) \<and>
   (\<exists>findings.
      agent_run (search_agent [(''chat_message'', PBool True)] [])
          [(''tool_input_SearxNGTool'', PStr ''cats'')] =
        (Inl (ModelOutputValidationError findings),
         (search_agent [(''chat_message'', PBool True)] [])
           \<lparr>memory :=
              [\<lparr>role = User, payload = [(''tool_input_SearxNGTool'', PStr ''cats'')]\<rparr>]\<rparr>))"
proof -
  let ?a = "answer_agent [(''markdown_output'', PNum 1)] []"
  have 1: "validate (input_schema (config ?a)) [(''question'', PStr ''why'')] =
             Inr [(''question'', PStr ''why'')]"
    by (simp add: answer_agent_def AnswerAgentInputSchema_def validate_def instance_of_def)
  have 2: "client (config ?a)
        (build_request (config ?a)
           (memory ?a @ [\<lparr>role = User, payload = [(''question'', PStr ''why'')]\<rparr>])) =
        Inr [(''markdown_output'', PNum 1)]"
    by (simp add: answer_agent_def)
  have 3: "tool_requested (config ?a) [(''markdown_output'', PNum 1)] = None"
    by (simp add: answer_agent_def tool_requested_def)
  have 4: "validate AnswerAgentOutputSchema [(''markdown_output'', PNum (1::real))] =
     Inl (SchemaValidationError ''AnswerAgentOutputSchema''
            [Mismatch [Key ''markdown_output''] ''string'' ''number''])"
    by (simp add: AnswerAgentOutputSchema_def validate_def)
  have 5: "output_schema (config ?a) = AnswerAgentOutputSchema"
    by (simp add: answer_agent_def)
  from agent_run_invalid_output [OF 1, of "[(''markdown_output'', PNum 1)]"] 2 3 4 5
  have "\<exists>findings.
      agent_run ?a [(''question'', PStr ''why'')] =
        (Inl (ModelOutputValidationError findings),
         ?a\<lparr>memory := memory ?a @ [\<lparr>role = User, payload = [(''question'', PStr ''why'')]\<rparr>]\<rparr>)"
    by simp
  moreover have "memory ?a = []"
    by (simp add: answer_agent_def)
  ultimately have plain: "\<exists>findings.
      agent_run ?a [(''question'', PStr ''why'')] =
        (Inl (ModelOutputValidationError findings),
         ?a\<lparr>memory := [\<lparr>role = User, payload = [(''question'', PStr ''why'')]\<rparr>]\<rparr>)"
    by simp
  let ?s = "search_agent [(''chat_message'', PBool True)] []"
  let ?user = "\<lparr>role = User, payload = [(''tool_input_SearxNGTool'', PStr ''cats'' :: real pyval)]\<rparr>"
  let ?result = "[(''results'', PList [PStr ''first hit'' :: real pyval])]"
  have t1: "validate (input_schema (config ?s)) [(''tool_input_SearxNGTool'', PStr ''cats'')] =
             Inr [(''tool_input_SearxNGTool'', PStr ''cats'')]"
    by (simp add: search_agent_def search_config_def validate_def instance_of_def)
  have t2: "client (config ?s) (build_request (config ?s) (memory ?s @ [?user])) =
             Inr [(''query'', PStr ''cats'')]"
    by (simp add: search_agent_def search_config_def build_request_def)
  have t3: "tool_requested (config ?s) [(''query'', PStr ''cats'')] =
             Some (search_tool, [(''query'', PStr ''cats'')])"
    by (simp add: search_agent_def search_config_def tool_requested_def search_tool_def validate_def instance_of_def)
  have t4: "tool_contract_run search_tool [(''query'', PStr ''cats'')] = Inr ?result"
    by (simp add: tool_contract_run_def search_tool_def validate_def instance_of_def)
  have t5: "client (config ?s)
              (build_request (config ?s) (memory ?s @ [?user, \<lparr>role = Tool, payload = ?result\<rparr>])) =
             Inr [(''chat_message'', PBool True)]"
    by (simp add: search_agent_def search_config_def build_request_def)
  have t6: "tool_requested (config ?s) [(''chat_message'', PBool True)] = None"
    by (simp add: search_agent_def search_config_def tool_requested_def search_tool_def validate_def)
  have t7: "validate (output_schema (config ?s)) [(''chat_message'', PBool True)] =
     Inl (SchemaValidationError ''ToolInterfaceAgentOutputSchema''
            [Mismatch [Key ''chat_message''] ''string'' ''boolean''])"
    by (simp add: search_agent_def search_config_def validate_def)
  from agent_run_invalid_output [OF t1, of "[(''query'', PStr ''cats'')]" _ search_tool
      "[(''query'', PStr ''cats'')]" ?result "[(''chat_message'', PBool True)]"]
    t2 t3 t4 t5 t6 t7
  have "\<exists>findings.
      agent_run ?s [(''tool_input_SearxNGTool'', PStr ''cats'')] =
        (Inl (ModelOutputValidationError findings), ?s\<lparr>memory := memory ?s @ [?user]\<rparr>)"
    by blast
  moreover have "memory ?s = []"
    by (simp add: search_agent_def search_config_def)
  ultimately have tooled: "\<exists>findings.
      agent_run ?s [(''tool_input_SearxNGTool'', PStr ''cats'')] =
        (Inl (ModelOutputValidationError findings), ?s\<lparr>memory := [?user]\<rparr>)"
    by simp
  show ?thesis
    using 4 plain tooled by blast
qed

end
